theory Spec2Isabelle
  imports Complex_Main "HOL-Library.Sublist"
begin

section \<open>The OctoPrint status plugin of Glances\<close>

text \<open>
  A shallow embedding of \<^verbatim>\<open>glances/plugins/glances_octoprint.py\<close>: the class
  \<^verbatim>\<open>Plugin\<close> with its constructor, \<^verbatim>\<open>update\<close> and \<^verbatim>\<open>msg_curse\<close>.
  The object is a record that every method receives and returns; an exception is the
  left summand of a sum type. What the plugin only calls (the application configuration,
  the file system and YAML reader, the HTTP transport, the disable flag of the base
  class) is a parameter of the method that calls it.
\<close>

subsection \<open>Strings\<close>

text \<open>
  A Python \<^verbatim>\<open>str\<close> is a sequence of code points, and widths count code points:
  a string is a list of naturals. \<open>lit\<close> turns an ASCII literal into one.
\<close>

type_synonym pystr = "nat list"

definition lit :: "string \<Rightarrow> pystr" where
  "lit s = map of_char s"

text \<open>U+00B0, the degree sign of the temperature rows.\<close>

definition degree_sign :: pystr where
  "degree_sign = [176]"

text \<open>\<^verbatim>\<open>str(n)\<close> for an integer: decimal digits, a minus sign when negative.\<close>

function digits :: "nat \<Rightarrow> pystr" where
  "digits n = (if n < 10 then [48 + n] else digits (n div 10) @ [48 + n mod 10])"
  by pat_completeness auto
termination
  by (relation "measure (\<lambda>n. n)") auto

declare digits.simps [simp del]

definition str_int :: "int \<Rightarrow> pystr" where
  "str_int i = (if i < 0 then 45 # digits (nat (- i)) else digits (nat i))"

text \<open>
  Padding with spaces, as the format specifications \<^verbatim>\<open><\<close> and \<^verbatim>\<open>>\<close>
  do: a string at least as long as the width is returned as it is.
\<close>

definition ljust :: "pystr \<Rightarrow> nat \<Rightarrow> pystr" where
  "ljust s w = s @ replicate (w - length s) 32"

definition rjust :: "pystr \<Rightarrow> nat \<Rightarrow> pystr" where
  "rjust s w = replicate (w - length s) 32 @ s"

subsection \<open>Values and exceptions\<close>

text \<open>
  The values that JSON and YAML documents and the configuration hold. A dictionary is
  an association list in insertion order, read by its first entry for a key. A float is
  the rational number that the finite double denotes; a signed zero and the non-finite
  values are not represented.
\<close>

datatype pyval =
    PNone
  | PBool bool
  | PInt int
  | PFloat rat
  | PStr pystr
  | PList "pyval list"
  | PDict "(pystr \<times> pyval) list"

text \<open>
  The exceptions of the built-in operations, and \<open>Raised\<close> for an exception of an
  external collaborator (file system, YAML or JSON reader) with its message.
\<close>

datatype exc =
    TypeError
  | KeyError
  | IndexError
  | ValueError
  | OverflowError
  | Raised pystr

definition bind :: "exc + 'a \<Rightarrow> ('a \<Rightarrow> exc + 'b) \<Rightarrow> exc + 'b" where
  "bind m f = (case m of Inl e \<Rightarrow> Inl e | Inr x \<Rightarrow> f x)"

text \<open>
  The part of the interpreter that is left abstract: \<^verbatim>\<open>str\<close> of a float, list or
  dictionary, and \<^verbatim>\<open>int\<close> of a string.
\<close>

record runtime =
  repr_of :: "pyval \<Rightarrow> pystr"
  int_of_str :: "pystr \<Rightarrow> exc + int"

text \<open>Truth value of an object, as \<^verbatim>\<open>not x\<close> tests it.\<close>

fun truthy :: "pyval \<Rightarrow> bool" where
  "truthy PNone = False"
| "truthy (PBool b) = b"
| "truthy (PInt i) = (i \<noteq> 0)"
| "truthy (PFloat q) = (q \<noteq> 0)"
| "truthy (PStr s) = (s \<noteq> [])"
| "truthy (PList xs) = (xs \<noteq> [])"
| "truthy (PDict d) = (d \<noteq> [])"

text \<open>\<^verbatim>\<open>str(x)\<close>, which is also what an f-string field without format specification gives.\<close>

fun py_str :: "runtime \<Rightarrow> pyval \<Rightarrow> pystr" where
  "py_str rt PNone = lit ''None''"
| "py_str rt (PBool b) = (if b then lit ''True'' else lit ''False'')"
| "py_str rt (PInt i) = str_int i"
| "py_str rt (PStr s) = s"
| "py_str rt v = repr_of rt v"

text \<open>\<^verbatim>\<open>int(x)\<close>: a float is truncated towards zero.\<close>

definition trunc :: "rat \<Rightarrow> int" where
  "trunc q = (if q < 0 then \<lceil>q\<rceil> else \<lfloor>q\<rfloor>)"

fun py_int :: "runtime \<Rightarrow> pyval \<Rightarrow> exc + int" where
  "py_int rt (PInt i) = Inr i"
| "py_int rt (PBool b) = Inr (if b then 1 else 0)"
| "py_int rt (PFloat q) = Inr (trunc q)"
| "py_int rt (PStr s) = int_of_str rt s"
| "py_int rt v = Inl TypeError"

text \<open>Indexing a sequence: a negative index counts from the end.\<close>

definition seq_index :: "'a list \<Rightarrow> int \<Rightarrow> exc + 'a" where
  "seq_index xs i =
     (if 0 \<le> i \<and> i < int (length xs) then Inr (xs ! nat i)
      else if i < 0 \<and> - int (length xs) \<le> i then Inr (xs ! nat (int (length xs) + i))
      else Inl IndexError)"

text \<open>
  \<^verbatim>\<open>x[k]\<close>. The keys of a dictionary are strings, so any other hashable key is
  missing and an unhashable one is a type error.
\<close>

fun subscript :: "pyval \<Rightarrow> pyval \<Rightarrow> exc + pyval" where
  "subscript (PDict d) (PStr k) = (case map_of d k of None \<Rightarrow> Inl KeyError | Some v \<Rightarrow> Inr v)"
| "subscript (PDict d) (PList xs) = Inl TypeError"
| "subscript (PDict d) (PDict e) = Inl TypeError"
| "subscript (PDict d) k = Inl KeyError"
| "subscript (PList xs) (PInt i) = seq_index xs i"
| "subscript (PList xs) (PBool b) = seq_index xs (if b then 1 else 0)"
| "subscript (PStr s) (PInt i) = map_sum id (\<lambda>c. PStr [c]) (seq_index s i)"
| "subscript (PStr s) (PBool b) = map_sum id (\<lambda>c. PStr [c]) (seq_index s (if b then 1 else 0))"
| "subscript x k = Inl TypeError"

text \<open>\<^verbatim>\<open>k in x\<close> for a string \<open>k\<close>.\<close>

fun py_contains :: "pystr \<Rightarrow> pyval \<Rightarrow> exc + bool" where
  "py_contains k (PStr s) = Inr (sublist k s)"
| "py_contains k (PList xs) = Inr (PStr k \<in> set xs)"
| "py_contains k (PDict d) = Inr (k \<in> fst ` set d)"
| "py_contains k v = Inl TypeError"

text \<open>What \<^verbatim>\<open>for key in x\<close> runs through.\<close>

fun py_iter :: "pyval \<Rightarrow> exc + pyval list" where
  "py_iter (PDict d) = Inr (map (\<lambda>kv. PStr (fst kv)) d)"
| "py_iter (PList xs) = Inr xs"
| "py_iter (PStr s) = Inr (map (\<lambda>c. PStr [c]) s)"
| "py_iter v = Inl TypeError"

text \<open>Whether a value is a dictionary: only such a value has entries to look up.\<close>

definition is_mapping :: "pyval \<Rightarrow> bool" where
  "is_mapping v = (case v of PDict d \<Rightarrow> True | _ \<Rightarrow> False)"

text \<open>\<^verbatim>\<open>d[k] = v\<close> on a dictionary: an existing key keeps its place.\<close>

fun dict_set :: "(pystr \<times> pyval) list \<Rightarrow> pystr \<Rightarrow> pyval \<Rightarrow> (pystr \<times> pyval) list" where
  "dict_set [] k v = [(k, v)]"
| "dict_set ((k', v') # d) k v = (if k' = k then (k, v) # d else (k', v') # dict_set d k v)"

subsection \<open>Format specifications\<close>

text \<open>
  \<^verbatim>\<open>'{:{width}}'.format(x, width=w)\<close> formats \<open>x\<close> with the specification
  \<^verbatim>\<open>str(w)\<close>. For a negative \<open>w\<close> the specification reads as a sign and a width:
  a string rejects the sign, a number accepts it. The specification \<^verbatim>\<open>0\<close> is the
  zero flag without a width (CPython 3.10 and later accept it for a string too). A width
  beyond \<open>PY_SSIZE_T_MAX\<close> has too many digits. Exhausted memory is not modelled.
\<close>

definition PY_SSIZE_T_MAX :: int where
  "PY_SSIZE_T_MAX = 2 ^ 63 - 1"

definition format_str :: "pystr \<Rightarrow> int \<Rightarrow> exc + pystr" where
  "format_str s w =
     (if \<bar>w\<bar> > PY_SSIZE_T_MAX then Inl ValueError
      else if w < 0 then Inl ValueError
      else Inr (ljust s (nat w)))"

definition format_num :: "pystr \<Rightarrow> int \<Rightarrow> exc + pystr" where
  "format_num s w =
     (if \<bar>w\<bar> > PY_SSIZE_T_MAX then Inl ValueError
      else Inr (rjust s (nat \<bar>w\<bar>)))"

fun py_format :: "runtime \<Rightarrow> pyval \<Rightarrow> int \<Rightarrow> exc + pystr" where
  "py_format rt (PStr s) w = format_str s w"
| "py_format rt (PInt i) w = format_num (str_int i) w"
| "py_format rt (PBool b) w = format_num (str_int (if b then 1 else 0)) w"
| "py_format rt (PFloat q) w = format_num (repr_of rt (PFloat q)) w"
| "py_format rt v w = Inl TypeError"

subsection \<open>Durations\<close>

text \<open>
  \<^verbatim>\<open>str(datetime.timedelta(seconds=n))\<close> for an integer \<open>n\<close>: the days are split off
  by floor division and must not exceed 999999999 in magnitude; the rest prints as
  \<^verbatim>\<open>%d:%02d:%02d\<close>.
\<close>

definition two_digits :: "nat \<Rightarrow> pystr" where
  "two_digits n = (if n < 10 then 48 # digits n else digits n)"

definition timedelta_str :: "int \<Rightarrow> exc + pystr" where
  "timedelta_str n =
     (let days = n div 86400;
          seconds = nat (n mod 86400);
          mm = seconds div 60; ss = seconds mod 60;
          hh = mm div 60; mm = mm mod 60;
          s = digits hh @ lit '':'' @ two_digits mm @ lit '':'' @ two_digits ss
      in if \<bar>days\<bar> > 999999999 then Inl OverflowError
         else if days \<noteq> 0
           then Inr (str_int days @ lit '' day'' @ (if \<bar>days\<bar> \<noteq> 1 then lit ''s'' else [])
                     @ lit '', '' @ s)
         else Inr s)"

subsection \<open>The plugin object and the display items\<close>

text \<open>The attributes that the methods of \<^verbatim>\<open>Plugin\<close> read and assign.\<close>

record plugin =
  display_curse :: bool
  host :: pyval
  port :: pyval
  api_key :: pyval
  printer_url :: pystr
  job_url :: pystr
  headers :: "(pystr \<times> pyval) list"
  stats :: pyval

text \<open>
  Modelled from the spec: \<^verbatim>\<open>curse_add_line\<close> and \<^verbatim>\<open>curse_new_line\<close> of the base
  class \<^verbatim>\<open>GlancesPlugin\<close>, which is not part of the source at hand. The rendered output is
  an ordered sequence of (text, style-tag) pairs, the style tags being a title marker and a
  default marker, with explicit line-break markers between rows.
\<close>

datatype decoration = TITLE | DEFAULT

datatype curse_item = Text pystr decoration | LineBreak

definition curse_add_line :: "pystr \<Rightarrow> decoration \<Rightarrow> curse_item" where
  "curse_add_line msg deco = Text msg deco"

definition curse_new_line :: curse_item where
  "curse_new_line = LineBreak"

subsection \<open>\<^verbatim>\<open>msg_curse\<close>\<close>

text \<open>\<^verbatim>\<open>max_width - k\<close>, where \<^verbatim>\<open>max_width\<close> defaults to \<^verbatim>\<open>None\<close>.\<close>

definition width_minus :: "int option \<Rightarrow> int \<Rightarrow> exc + int" where
  "width_minus max_width k = (case max_width of None \<Rightarrow> Inl TypeError | Some w \<Rightarrow> Inr (w - k))"

text \<open>
  The value shown for a temperature: \<^verbatim>\<open>None\<close>, or \<^verbatim>\<open>int(tool[field])\<close> when the
  entry is not \<^verbatim>\<open>None\<close>.
\<close>

definition coerce_field :: "runtime \<Rightarrow> pyval \<Rightarrow> pystr \<Rightarrow> exc + int option" where
  "coerce_field rt tool field =
     bind (subscript tool (PStr field)) (\<lambda>v.
       if v \<noteq> PNone then bind (subscript tool (PStr field)) (\<lambda>v. map_sum id Some (py_int rt v))
       else Inr None)"

text \<open>\<^verbatim>\<open>str(x)\<close> of a local variable that is \<^verbatim>\<open>None\<close> or holds \<open>x\<close>.\<close>

definition str_opt :: "('a \<Rightarrow> pystr) \<Rightarrow> 'a option \<Rightarrow> pystr" where
  "str_opt f x = (case x of None \<Rightarrow> lit ''None'' | Some y \<Rightarrow> f y)"

text \<open>The loop over \<^verbatim>\<open>self.stats["temperature"]\<close>: three items for each key.\<close>

fun tool_rows :: "runtime \<Rightarrow> pyval \<Rightarrow> int \<Rightarrow> pyval list \<Rightarrow> exc + curse_item list" where
  "tool_rows rt temperature name_max_width [] = Inr []"
| "tool_rows rt temperature name_max_width (key # keys) =
     bind (subscript temperature key) (\<lambda>tool.
     bind (coerce_field rt tool (lit ''actual'')) (\<lambda>actual.
     bind (coerce_field rt tool (lit ''target'')) (\<lambda>target.
     bind (py_format rt key name_max_width) (\<lambda>tool_msg.
     let temps = rjust (str_opt str_int actual) 3 @ degree_sign @ lit ''C  ''
                 @ rjust (str_opt str_int target) 3 @ degree_sign @ lit ''C''
     in bind (tool_rows rt temperature name_max_width keys) (\<lambda>rest.
          Inr ([curse_add_line tool_msg DEFAULT, curse_add_line temps DEFAULT, curse_new_line]
               @ rest))))))"

text \<open>
  The text of a duration row: \<^verbatim>\<open>None\<close>, or the seconds under the key coerced to an
  integer and printed as a \<^verbatim>\<open>timedelta\<close>.
\<close>

definition duration :: "runtime \<Rightarrow> pyval \<Rightarrow> pystr \<Rightarrow> exc + pystr option" where
  "duration rt st field =
     bind (subscript st (PStr field)) (\<lambda>v.
       if v \<noteq> PNone then
         bind (subscript st (PStr field)) (\<lambda>v.
         bind (py_int rt v) (\<lambda>n.
         map_sum id Some (timedelta_str n)))
       else Inr None)"

text \<open>
  \<^verbatim>\<open>msg_curse(self, args, max_width)\<close>. \<open>is_disable\<close> is the answer of the base
  class's \<^verbatim>\<open>is_disable()\<close>. The method returns its list, or raises, and the object.
\<close>

definition msg_curse_items :: "runtime \<Rightarrow> bool \<Rightarrow> plugin \<Rightarrow> int option \<Rightarrow> exc + curse_item list" where
  "msg_curse_items rt is_disable self max_width =
     (let ret = [] in
      if \<not> truthy (stats self) \<or> is_disable then Inr ret
      else
        bind (width_minus max_width 11) (\<lambda>name_max_width.
        bind (subscript (stats self) (PStr (lit ''state''))) (\<lambda>state.
        bind (format_str (lit ''OCTOPRINT '' @ py_str rt state) name_max_width) (\<lambda>msg.
        let ret = ret @ [curse_add_line msg TITLE];
            ret = ret @ [curse_new_line]
        in
        bind (py_contains (lit ''error'') (stats self)) (\<lambda>has_error.
        if has_error then
          bind (subscript (stats self) (PStr (lit ''error''))) (\<lambda>err.
          bind (py_format rt err name_max_width) (\<lambda>msg.
          Inr (ret @ [curse_add_line msg DEFAULT])))
        else
          bind (format_str (lit ''Temperature'') name_max_width) (\<lambda>msg.
          let ret = ret @ [curse_add_line msg DEFAULT];
              msg = lit ''actual target''
          in
          bind (width_minus max_width 10) (\<lambda>name_max_width.
          let ret = ret @ [curse_add_line msg DEFAULT];
              ret = ret @ [curse_new_line]
          in
          bind (subscript (stats self) (PStr (lit ''temperature''))) (\<lambda>temperature.
          bind (py_iter temperature) (\<lambda>keys.
          bind (tool_rows rt temperature name_max_width keys) (\<lambda>rows.
          let ret = ret @ rows in
          bind (width_minus max_width 5) (\<lambda>name_max_width.
          bind (duration rt (stats self) (lit ''progress_printTime'')) (\<lambda>actual.
          bind (duration rt (stats self) (lit ''progress_printTimeLeft'')) (\<lambda>target.
          bind (format_str (lit ''Time passed:'') name_max_width) (\<lambda>msg.
          let ret = ret @ [curse_add_line msg DEFAULT];
              tool_msg = rjust (str_opt id actual) 6;
              ret = ret @ [curse_add_line tool_msg DEFAULT];
              ret = ret @ [curse_new_line]
          in
          bind (format_str (lit ''Time left:'') name_max_width) (\<lambda>msg.
          let ret = ret @ [curse_add_line msg DEFAULT];
              tool_msg = rjust (str_opt id target) 6;
              ret = ret @ [curse_add_line tool_msg DEFAULT]
          in Inr ret)))))))))))))))"

definition msg_curse :: "runtime \<Rightarrow> bool \<Rightarrow> plugin \<Rightarrow> int option \<Rightarrow> (exc + curse_item list) \<times> plugin" where
  "msg_curse rt is_disable self max_width = (msg_curse_items rt is_disable self max_width, self)"

subsection \<open>\<^verbatim>\<open>update\<close>\<close>

text \<open>
  What the plugin observes of a \<^verbatim>\<open>requests\<close> response: the status code, the body
  text, and what \<^verbatim>\<open>.json()\<close> returns or raises.
\<close>

record response =
  status_code :: int
  resp_text :: pystr
  resp_json :: "exc + pyval"

text \<open>
  \<^verbatim>\<open>requests.get(url=..., headers=...)\<close>: \<open>Inl m\<close> when it raises an exception
  \<open>e\<close> with \<^verbatim>\<open>str(e)\<close> equal to \<open>m\<close>.
\<close>

type_synonym transport = "pystr \<Rightarrow> (pystr \<times> pyval) list \<Rightarrow> pystr + response"

text \<open>
  Modelled from the spec: \<^verbatim>\<open>get_init_value\<close> of the base class \<^verbatim>\<open>GlancesPlugin\<close>,
  which is not part of the source at hand. The record is recreated from scratch on every
  poll cycle and nothing of the previous one is retained: an empty dictionary.
\<close>

definition get_init_value :: "(pystr \<times> pyval) list" where
  "get_init_value = []"

text \<open>The \<^verbatim>\<open>except\<close> clause: both keys are set, the record is stored and returned.\<close>

definition unable_to_connect :: "pystr \<Rightarrow> (pystr \<times> pyval) list \<Rightarrow> plugin \<Rightarrow> (exc + pyval) \<times> plugin" where
  "unable_to_connect e st self =
     (let st = dict_set st (lit ''state'') (PStr (lit ''Error''));
          st = dict_set st (lit ''error'') (PStr (lit ''Unable to connect: '' @ e))
      in (Inr (PDict st), self\<lparr>stats := PDict st\<rparr>))"

text \<open>The \<^verbatim>\<open>else\<close> branch: both bodies are decoded, then five keys are assigned in turn.\<close>

definition project :: "response \<Rightarrow> response \<Rightarrow> (pystr \<times> pyval) list \<Rightarrow> exc + (pystr \<times> pyval) list" where
  "project printer job st =
     bind (resp_json job) (\<lambda>job.
     bind (resp_json printer) (\<lambda>printer.
     bind (subscript job (PStr (lit ''job''))) (\<lambda>j.
     bind (subscript j (PStr (lit ''estimatedPrintTime''))) (\<lambda>v.
     let st = dict_set st (lit ''estimatedPrintTime'') v in
     bind (subscript job (PStr (lit ''progress''))) (\<lambda>p.
     bind (subscript p (PStr (lit ''printTime''))) (\<lambda>v.
     let st = dict_set st (lit ''progress_printTime'') v in
     bind (subscript job (PStr (lit ''progress''))) (\<lambda>p.
     bind (subscript p (PStr (lit ''printTimeLeft''))) (\<lambda>v.
     let st = dict_set st (lit ''progress_printTimeLeft'') v in
     bind (subscript job (PStr (lit ''state''))) (\<lambda>v.
     let st = dict_set st (lit ''state'') v in
     bind (subscript printer (PStr (lit ''temperature''))) (\<lambda>v.
     let st = dict_set st (lit ''temperature'') v in
     Inr st))))))))))"

text \<open>
  The body of \<^verbatim>\<open>update(self)\<close>; the two decorators of the base class, which decide
  whether the body runs and log its result, are outside. An exception that leaves the
  method leaves the object as it was.
\<close>

definition update :: "transport \<Rightarrow> plugin \<Rightarrow> (exc + pyval) \<times> plugin" where
  "update requests_get self =
     (let st = get_init_value in
      case requests_get (printer_url self) (headers self) of
        Inl e \<Rightarrow> unable_to_connect e st self
      | Inr printer \<Rightarrow>
          (case requests_get (job_url self) (headers self) of
             Inl e \<Rightarrow> unable_to_connect e st self
           | Inr job \<Rightarrow>
               if status_code printer \<noteq> 200 then
                 (let st = dict_set st (lit ''state'') (PStr (lit ''Error''));
                      st = dict_set st (lit ''error'') (PStr (resp_text printer))
                  in (Inr (PDict st), self\<lparr>stats := PDict st\<rparr>))
               else
                 (case project printer job st of
                    Inl e \<Rightarrow> (Inl e, self)
                  | Inr st \<Rightarrow> (Inr (PDict st), self\<lparr>stats := PDict st\<rparr>))))"

subsection \<open>The constructor\<close>

text \<open>
  What the constructor reads: the home directory, the application configuration
  (\<^verbatim>\<open>has_section\<close>, and \<^verbatim>\<open>get_value\<close> with section, option and default), whether a
  path is a file, and what opening it and \<^verbatim>\<open>yaml.safe_load\<close> give.
\<close>

record environment =
  home :: pystr
  has_section :: "pystr \<Rightarrow> bool"
  get_value :: "pystr \<Rightarrow> pystr \<Rightarrow> pyval \<Rightarrow> pyval"
  isfile :: "pystr \<Rightarrow> bool"
  safe_load :: "pystr \<Rightarrow> exc + pyval"

text \<open>\<^verbatim>\<open>os.path.join\<close> on a POSIX system, one component at a time.\<close>

definition path_join :: "pystr \<Rightarrow> pystr \<Rightarrow> pystr" where
  "path_join path b =
     (if prefix (lit ''/'') b then b
      else if path = [] \<or> [last path] = lit ''/'' then path @ b
      else path @ lit ''/'' @ b)"

definition config_yaml :: "environment \<Rightarrow> pystr" where
  "config_yaml env = path_join (path_join (home env) (lit ''.octoprint'')) (lit ''config.yaml'')"

text \<open>
  The defaults and the section \<^verbatim>\<open>octoprint\<close> of the application configuration.
  \<open>base\<close> is the object as \<^verbatim>\<open>super().__init__\<close> leaves it.
\<close>

definition read_config :: "environment \<Rightarrow> plugin \<Rightarrow> plugin" where
  "read_config env base =
     (let self = base\<lparr>display_curse := True, host := PStr (lit ''http://0.0.0.0''),
                      port := PInt 5000, api_key := PNone\<rparr>
      in if has_section env (lit ''octoprint'') then
           self\<lparr>host := get_value env (lit ''octoprint'') (lit ''host'') (PStr (lit ''http://0.0.0.0'')),
                port := get_value env (lit ''octoprint'') (lit ''port'') (PStr (lit ''5000'')),
                api_key := get_value env (lit ''octoprint'') (lit ''api_key'') PNone\<rparr>
         else self)"

text \<open>The key of the local OctoPrint configuration, read when none is set yet.\<close>

definition read_api_key :: "environment \<Rightarrow> plugin \<Rightarrow> exc + plugin" where
  "read_api_key env self =
     (if \<not> truthy (api_key self) then
        (let path = config_yaml env in
         if isfile env path then
           bind (safe_load env path) (\<lambda>data.
           bind (subscript data (PStr (lit ''api''))) (\<lambda>api.
           bind (subscript api (PStr (lit ''key''))) (\<lambda>key.
           Inr (self\<lparr>api_key := key\<rparr>))))
         else Inr self)
      else Inr self)"

text \<open>The scheme prefix, the two endpoint addresses and the request header.\<close>

definition build_urls :: "runtime \<Rightarrow> plugin \<Rightarrow> exc + plugin" where
  "build_urls rt self =
     bind (py_contains (lit ''http'') (host self)) (\<lambda>found.
     let self = (if \<not> found then self\<lparr>host := PStr (lit ''http://'' @ py_str rt (host self))\<rparr>
                 else self);
         self = self\<lparr>printer_url := py_str rt (host self) @ lit '':'' @ py_str rt (port self)
                                       @ lit ''/api/printer''\<rparr>;
         self = self\<lparr>job_url := py_str rt (host self) @ lit '':'' @ py_str rt (port self)
                                   @ lit ''/api/job''\<rparr>;
         self = self\<lparr>headers := [(lit ''X-Api-Key'', api_key self)]\<rparr>
     in Inr self)"

definition init :: "runtime \<Rightarrow> environment \<Rightarrow> plugin \<Rightarrow> exc + plugin" where
  "init rt env base = bind (read_api_key env (read_config env base)) (build_urls rt)"

subsection \<open>\<^verbatim>\<open>msg_curse\<close>, statement by statement\<close>

text \<open>
  The same method as a sequence of statements on a frame that holds the object and the
  list \<^verbatim>\<open>ret\<close>. A statement returns a value or raises, and leaves a frame: reading
  \<^verbatim>\<open>self.stats\<close> looks the object up in the frame, \<^verbatim>\<open>ret.append\<close> changes the list
  in the frame, and an expression without effect only returns or raises. What a raise
  leaves of the frame stays: the object is whatever the statements before made of it.
\<close>

record frame =
  this :: plugin
  ret :: "curse_item list"

type_synonym 'a prog = "frame \<Rightarrow> (exc + 'a) \<times> frame"

definition attempt :: "exc + 'a \<Rightarrow> 'a prog" where
  "attempt r = (\<lambda>f. (r, f))"

definition next_do :: "'a prog \<Rightarrow> ('a \<Rightarrow> 'b prog) \<Rightarrow> 'b prog" where
  "next_do m k = (\<lambda>f. case m f of (Inl e, f') \<Rightarrow> (Inl e, f') | (Inr x, f') \<Rightarrow> k x f')"

definition self_stats :: "pyval prog" where
  "self_stats = (\<lambda>f. (Inr (stats (this f)), f))"

definition ret_new :: "unit prog" where
  "ret_new = (\<lambda>f. (Inr (), f\<lparr>ret := []\<rparr>))"

definition ret_append :: "curse_item \<Rightarrow> unit prog" where
  "ret_append x = (\<lambda>f. (Inr (), f\<lparr>ret := ret f @ [x]\<rparr>))"

definition return_ret :: "curse_item list prog" where
  "return_ret = (\<lambda>f. (Inr (ret f), f))"

text \<open>The body of the loop reads \<^verbatim>\<open>self.stats["temperature"][key]\<close> anew for each key.\<close>

fun tool_loop :: "runtime \<Rightarrow> int \<Rightarrow> pyval list \<Rightarrow> unit prog" where
  "tool_loop rt name_max_width [] = attempt (Inr ())"
| "tool_loop rt name_max_width (key # keys) =
     next_do self_stats (\<lambda>st.
     next_do (attempt (subscript st (PStr (lit ''temperature'')))) (\<lambda>temperature.
     next_do (attempt (subscript temperature key)) (\<lambda>tool.
     next_do (attempt (coerce_field rt tool (lit ''actual''))) (\<lambda>actual.
     next_do (attempt (coerce_field rt tool (lit ''target''))) (\<lambda>target.
     next_do (attempt (py_format rt key name_max_width)) (\<lambda>tool_msg.
     next_do (ret_append (curse_add_line tool_msg DEFAULT)) (\<lambda>_.
     let tool_msg = rjust (str_opt str_int actual) 3 @ degree_sign @ lit ''C  ''
                    @ rjust (str_opt str_int target) 3 @ degree_sign @ lit ''C''
     in
     next_do (ret_append (curse_add_line tool_msg DEFAULT)) (\<lambda>_.
     next_do (ret_append curse_new_line) (\<lambda>_.
     tool_loop rt name_max_width keys)))))))))"

definition msg_curse_prog :: "runtime \<Rightarrow> bool \<Rightarrow> int option \<Rightarrow> curse_item list prog" where
  "msg_curse_prog rt is_disable max_width =
     next_do ret_new (\<lambda>_.
     next_do self_stats (\<lambda>st.
     if \<not> truthy st \<or> is_disable then return_ret
     else
       next_do (attempt (width_minus max_width 11)) (\<lambda>name_max_width.
       next_do self_stats (\<lambda>st.
       next_do (attempt (subscript st (PStr (lit ''state'')))) (\<lambda>state.
       next_do (attempt (format_str (lit ''OCTOPRINT '' @ py_str rt state) name_max_width)) (\<lambda>msg.
       next_do (ret_append (curse_add_line msg TITLE)) (\<lambda>_.
       next_do (ret_append curse_new_line) (\<lambda>_.
       next_do self_stats (\<lambda>st.
       next_do (attempt (py_contains (lit ''error'') st)) (\<lambda>has_error.
       if has_error then
         next_do self_stats (\<lambda>st.
         next_do (attempt (subscript st (PStr (lit ''error'')))) (\<lambda>err.
         next_do (attempt (py_format rt err name_max_width)) (\<lambda>msg.
         next_do (ret_append (curse_add_line msg DEFAULT)) (\<lambda>_.
         return_ret))))
       else
         next_do (attempt (format_str (lit ''Temperature'') name_max_width)) (\<lambda>msg.
         next_do (ret_append (curse_add_line msg DEFAULT)) (\<lambda>_.
         let msg = lit ''actual target'' in
         next_do (attempt (width_minus max_width 10)) (\<lambda>name_max_width.
         next_do (ret_append (curse_add_line msg DEFAULT)) (\<lambda>_.
         next_do (ret_append curse_new_line) (\<lambda>_.
         next_do self_stats (\<lambda>st.
         next_do (attempt (subscript st (PStr (lit ''temperature'')))) (\<lambda>temperature.
         next_do (attempt (py_iter temperature)) (\<lambda>keys.
         next_do (tool_loop rt name_max_width keys) (\<lambda>_.
         next_do (attempt (width_minus max_width 5)) (\<lambda>name_max_width.
         next_do self_stats (\<lambda>st.
         next_do (attempt (duration rt st (lit ''progress_printTime''))) (\<lambda>actual.
         next_do self_stats (\<lambda>st.
         next_do (attempt (duration rt st (lit ''progress_printTimeLeft''))) (\<lambda>target.
         next_do (attempt (format_str (lit ''Time passed:'') name_max_width)) (\<lambda>msg.
         next_do (ret_append (curse_add_line msg DEFAULT)) (\<lambda>_.
         let tool_msg = rjust (str_opt id actual) 6 in
         next_do (ret_append (curse_add_line tool_msg DEFAULT)) (\<lambda>_.
         next_do (ret_append curse_new_line) (\<lambda>_.
         next_do (attempt (format_str (lit ''Time left:'') name_max_width)) (\<lambda>msg.
         next_do (ret_append (curse_add_line msg DEFAULT)) (\<lambda>_.
         let tool_msg = rjust (str_opt id target) 6 in
         next_do (ret_append (curse_add_line tool_msg DEFAULT)) (\<lambda>_.
         return_ret)))))))))))))))))))))))))))))))"

text \<open>
  A call starts on a frame with the object and a list of its own, and hands back what the
  statements return or raise together with the object that the last frame holds.
\<close>

definition msg_curse_call :: "runtime \<Rightarrow> bool \<Rightarrow> plugin \<Rightarrow> int option \<Rightarrow> (exc + curse_item list) \<times> plugin" where
  "msg_curse_call rt is_disable self max_width =
     (case msg_curse_prog rt is_disable max_width \<lparr>this = self, ret = []\<rparr> of
        (r, f) \<Rightarrow> (r, this f))"

subsection \<open>The healthy display, in the words of the specification\<close>

text \<open>
  A temperature or a time of the record is an optional number: \<^verbatim>\<open>null\<close>, an integer
  or a float. Shown, it is coerced to an integer when present.
\<close>

definition is_reading :: "pyval \<Rightarrow> bool" where
  "is_reading v = (case v of PNone \<Rightarrow> True | PInt i \<Rightarrow> True | PFloat q \<Rightarrow> True | _ \<Rightarrow> False)"

definition reading_int :: "pyval \<Rightarrow> int option" where
  "reading_int v = (case v of PInt i \<Rightarrow> Some i | PFloat q \<Rightarrow> Some (trunc q) | _ \<Rightarrow> None)"

text \<open>Hours, minutes and seconds of a number of seconds, the latter two with two digits.\<close>

definition hms :: "nat \<Rightarrow> pystr" where
  "hms n = digits (n div 3600) @ lit '':'' @ two_digits (n div 60 mod 60) @ lit '':''
           @ two_digits (n mod 60)"

text \<open>
  A duration: hours, minutes and seconds within a day; otherwise the count of whole days
  in front of the hours, minutes and seconds of the rest.
\<close>

definition duration_text :: "int \<Rightarrow> pystr" where
  "duration_text n =
     (if 0 \<le> n \<and> n < 86400 then hms (nat n)
      else str_int (n div 86400) @ lit '' day'' @ (if \<bar>n div 86400\<bar> = 1 then [] else lit ''s'')
           @ lit '', '' @ hms (nat (n mod 86400)))"

text \<open>A time of the record: an optional number of at most 999999999 days in magnitude.\<close>

definition is_seconds :: "pyval \<Rightarrow> bool" where
  "is_seconds v =
     (is_reading v \<and> (case reading_int v of None \<Rightarrow> True | Some n \<Rightarrow> \<bar>n div 86400\<bar> \<le> 999999999))"

text \<open>
  A tool of the record: a mapping with the optional numbers \<^verbatim>\<open>actual\<close> and
  \<^verbatim>\<open>target\<close>. Its row: the name, the two temperatures, a line break.
\<close>

definition tool_field :: "pyval \<Rightarrow> pystr \<Rightarrow> pyval option" where
  "tool_field tool k = (case tool of PDict td \<Rightarrow> map_of td k | _ \<Rightarrow> None)"

definition is_tool :: "pyval \<Rightarrow> bool" where
  "is_tool tool =
     ((case tool_field tool (lit ''actual'') of None \<Rightarrow> False | Some v \<Rightarrow> is_reading v)
      \<and> (case tool_field tool (lit ''target'') of None \<Rightarrow> False | Some v \<Rightarrow> is_reading v))"

definition shown_temperature :: "pyval \<Rightarrow> pystr \<Rightarrow> pystr" where
  "shown_temperature tool k =
     (case tool_field tool k of None \<Rightarrow> lit ''None''
      | Some v \<Rightarrow> (case reading_int v of None \<Rightarrow> lit ''None'' | Some i \<Rightarrow> str_int i))"

definition tool_row :: "int \<Rightarrow> pystr \<times> pyval \<Rightarrow> curse_item list" where
  "tool_row w kv =
     [Text (ljust (fst kv) (nat w)) DEFAULT,
      Text (rjust (shown_temperature (snd kv) (lit ''actual'')) 3 @ degree_sign @ lit ''C  ''
            @ rjust (shown_temperature (snd kv) (lit ''target'')) 3 @ degree_sign @ lit ''C'')
        DEFAULT,
      LineBreak]"

definition shown_duration :: "pyval \<Rightarrow> pystr" where
  "shown_duration v = (case reading_int v of None \<Rightarrow> lit ''None'' | Some n \<Rightarrow> duration_text n)"

subsection \<open>Sample inputs\<close>

text \<open>An interpreter stub, an object before construction, and the object the defaults give.\<close>

definition plain_runtime :: runtime where
  "plain_runtime = \<lparr>repr_of = (\<lambda>v. lit ''?''), int_of_str = (\<lambda>s. Inl ValueError)\<rparr>"

definition blank_plugin :: plugin where
  "blank_plugin = \<lparr>display_curse = False, host = PNone, port = PNone, api_key = PNone,
                    printer_url = [], job_url = [], headers = [], stats = PDict []\<rparr>"

definition local_plugin :: plugin where
  "local_plugin =
     \<lparr>display_curse = True, host = PStr (lit ''http://0.0.0.0''), port = PInt 5000,
      api_key = PNone, printer_url = lit ''http://0.0.0.0:5000/api/printer'',
      job_url = lit ''http://0.0.0.0:5000/api/job'', headers = [(lit ''X-Api-Key'', PNone)],
      stats = PDict []\<rparr>"

text \<open>
  An application configuration whose section \<^verbatim>\<open>octoprint\<close> sets only the host, with
  no local file; and no such section, with a local file that loads as given.
\<close>

definition app_config_env :: "pystr \<Rightarrow> environment" where
  "app_config_env h =
     \<lparr>home = lit ''/home/pi'',
      has_section = (\<lambda>s. s = lit ''octoprint''),
      get_value = (\<lambda>s k d. if k = lit ''host'' then PStr h else d),
      isfile = (\<lambda>p. False),
      safe_load = (\<lambda>p. Inl (Raised (lit ''No such file'')))\<rparr>"

definition local_file_env :: "exc + pyval \<Rightarrow> environment" where
  "local_file_env loaded =
     \<lparr>home = lit ''/home/pi'',
      has_section = (\<lambda>s. False),
      get_value = (\<lambda>s k d. d),
      isfile = (\<lambda>p. p = lit ''/home/pi/.octoprint/config.yaml''),
      safe_load = (\<lambda>p. loaded)\<rparr>"

definition keyed_document :: pyval where
  "keyed_document = PDict [(lit ''api'', PDict [(lit ''key'', PStr (lit ''A1B2''))])]"

definition keyless_document :: pyval where
  "keyless_document = PDict [(lit ''server'', PDict [(lit ''port'', PInt 5000)])]"

text \<open>Responses of the two endpoints, and transports that serve them or fail.\<close>

definition printer_payload :: pyval where
  "printer_payload =
     PDict [(lit ''temperature'',
               PDict [(lit ''tool0'',
                         PDict [(lit ''actual'', PFloat (7050948166601933 / 35184372088832)),
                                (lit ''target'', PInt 210)])])]"

definition job_payload :: pyval where
  "job_payload =
     PDict [(lit ''job'', PDict [(lit ''estimatedPrintTime'', PInt 9000)]),
            (lit ''progress'', PDict [(lit ''printTime'', PInt 3661),
                                      (lit ''printTimeLeft'', PInt 7325)]),
            (lit ''state'', PStr (lit ''Printing''))]"

definition printer_ok :: response where
  "printer_ok = \<lparr>status_code = 200, resp_text = lit ''{...}'', resp_json = Inr printer_payload\<rparr>"

definition job_ok :: response where
  "job_ok = \<lparr>status_code = 200, resp_text = lit ''{...}'', resp_json = Inr job_payload\<rparr>"

definition printer_down :: response where
  "printer_down = \<lparr>status_code = 500, resp_text = lit ''server down'',
                    resp_json = Inl (Raised (lit ''Expecting value''))\<rparr>"

definition serve :: "response \<Rightarrow> response \<Rightarrow> transport" where
  "serve printer job url hdrs =
     (if url = lit ''http://0.0.0.0:5000/api/printer'' then Inr printer else Inr job)"

definition refuse :: transport where
  "refuse url hdrs = Inl (lit ''Connection refused'')"

definition refuse_job :: "response \<Rightarrow> transport" where
  "refuse_job printer url hdrs =
     (if url = lit ''http://0.0.0.0:5000/api/printer'' then Inr printer
      else Inl (lit ''Connection refused''))"

text \<open>
  The records of a healthy and of a failed poll. The float is the double nearest to 200.4.
\<close>

definition healthy_record :: pyval where
  "healthy_record =
     PDict [(lit ''estimatedPrintTime'', PInt 9000),
            (lit ''progress_printTime'', PInt 3661),
            (lit ''progress_printTimeLeft'', PInt 7325),
            (lit ''state'', PStr (lit ''Printing'')),
            (lit ''temperature'',
               PDict [(lit ''tool0'',
                         PDict [(lit ''actual'', PFloat (7050948166601933 / 35184372088832)),
                                (lit ''target'', PInt 210)])])]"

definition error_record :: pyval where
  "error_record =
     PDict [(lit ''state'', PStr (lit ''Error'')), (lit ''error'', PStr (lit ''server down''))]"

text \<open>
  An idle printer, a print that has run for more than a day, and a paused print with two
  tools. 21.5 and 60.25 are floats.
\<close>

definition idle_record :: pyval where
  "idle_record =
     PDict [(lit ''estimatedPrintTime'', PNone),
            (lit ''progress_printTime'', PNone),
            (lit ''progress_printTimeLeft'', PNone),
            (lit ''state'', PStr (lit ''Operational'')),
            (lit ''temperature'',
               PDict [(lit ''bed'', PDict [(lit ''actual'', PFloat (43 / 2)),
                                           (lit ''target'', PNone)])])]"

definition long_print_record :: pyval where
  "long_print_record =
     PDict [(lit ''estimatedPrintTime'', PInt 93722),
            (lit ''progress_printTime'', PInt 90061),
            (lit ''progress_printTimeLeft'', PInt 3661),
            (lit ''state'', PStr (lit ''Printing'')),
            (lit ''temperature'',
               PDict [(lit ''tool0'',
                         PDict [(lit ''actual'', PFloat (7050948166601933 / 35184372088832)),
                                (lit ''target'', PInt 210)])])]"

definition paused_tools :: "(pystr \<times> pyval) list" where
  "paused_tools =
     [(lit ''tool0'', PDict [(lit ''actual'', PInt 215), (lit ''target'', PInt 215)]),
      (lit ''bed'', PDict [(lit ''actual'', PFloat (241 / 4)), (lit ''target'', PNone)])]"

definition paused_record :: pyval where
  "paused_record =
     PDict [(lit ''estimatedPrintTime'', PInt 200000),
            (lit ''progress_printTime'', PInt 172805),
            (lit ''progress_printTimeLeft'', PNone),
            (lit ''state'', PStr (lit ''Paused'')),
            (lit ''temperature'', PDict paused_tools)]"

section \<open>Properties\<close>

subsection \<open>Auxiliary facts\<close>

lemma bind_Inr: "bind (Inr x) f = f x"
  by (simp add: bind_def)

lemma bind_Inl: "bind (Inl e) f = Inl e"
  by (simp add: bind_def)

lemma map_of_dict_key: "map_of d k = Some v \<Longrightarrow> k \<in> fst ` set d"
  by (metis domI dom_map_of_conv_image_fst)

lemma replicate_numeral: "replicate (numeral k) x = x # replicate (pred_numeral k) x"
  by (simp add: numeral_eq_Suc)

lemma trunc_200: "trunc (7050948166601933 / 35184372088832) = 200"
proof -
  have "\<lfloor>7050948166601933 / 35184372088832 :: rat\<rfloor> = 200"
    by (rule floor_unique) simp_all
  then show ?thesis by (simp add: trunc_def)
qed

lemma trunc_fraction: "trunc (numeral a / numeral b) = numeral a div numeral b"
proof -
  have "\<lfloor>of_int (numeral a) / of_int (numeral b) :: rat\<rfloor> = numeral a div numeral b"
    by (rule floor_divide_of_int_eq)
  then show ?thesis by (simp add: trunc_def)
qed

lemmas eval_simps =
  bind_Inr bind_Inl lit_def width_minus_def format_str_def format_num_def PY_SSIZE_T_MAX_def
  ljust_def rjust_def replicate_numeral coerce_field_def duration_def timedelta_str_def
  two_digits_def digits.simps str_opt_def str_int_def curse_add_line_def curse_new_line_def
  degree_sign_def Let_def

lemmas sample_simps =
  plain_runtime_def blank_plugin_def local_plugin_def app_config_env_def local_file_env_def
  keyed_document_def keyless_document_def printer_payload_def job_payload_def printer_ok_def
  job_ok_def printer_down_def serve_def refuse_def refuse_job_def healthy_record_def
  error_record_def idle_record_def long_print_record_def paused_tools_def paused_record_def

lemma read_api_key_keeps: "read_api_key env p = Inr s \<Longrightarrow> host s = host p \<and> port s = port p"
  by (auto simp: read_api_key_def bind_def Let_def split: if_splits sum.splits)

lemma healthy_items:
  "stats self = healthy_record \<Longrightarrow>
   msg_curse_items rt False self (Some 40) =
     Inr [Text (lit ''OCTOPRINT Printing           '') TITLE, LineBreak,
          Text (lit ''Temperature                  '') DEFAULT,
          Text (lit ''actual target'') DEFAULT, LineBreak,
          Text (lit ''tool0                         '') DEFAULT,
          Text (lit ''200'' @ degree_sign @ lit ''C  210'' @ degree_sign @ lit ''C'') DEFAULT,
          LineBreak,
          Text (lit ''Time passed:                       '') DEFAULT,
          Text (lit ''1:01:01'') DEFAULT, LineBreak,
          Text (lit ''Time left:                         '') DEFAULT,
          Text (lit ''2:02:05'') DEFAULT]"
  by (simp add: msg_curse_items_def healthy_record_def trunc_200 eval_simps)

lemma idle_items:
  "stats self = idle_record \<Longrightarrow>
   msg_curse_items rt False self (Some 40) =
     Inr [Text (lit ''OCTOPRINT Operational        '') TITLE, LineBreak,
          Text (lit ''Temperature                  '') DEFAULT,
          Text (lit ''actual target'') DEFAULT, LineBreak,
          Text (lit ''bed                           '') DEFAULT,
          Text (lit '' 21'' @ degree_sign @ lit ''C  None'' @ degree_sign @ lit ''C'') DEFAULT,
          LineBreak,
          Text (lit ''Time passed:                       '') DEFAULT,
          Text (lit ''  None'') DEFAULT, LineBreak,
          Text (lit ''Time left:                         '') DEFAULT,
          Text (lit ''  None'') DEFAULT]"
  by (simp add: msg_curse_items_def idle_record_def trunc_fraction eval_simps)

lemma long_print_items:
  "stats self = long_print_record \<Longrightarrow>
   msg_curse_items rt False self (Some 40) =
     Inr [Text (lit ''OCTOPRINT Printing           '') TITLE, LineBreak,
          Text (lit ''Temperature                  '') DEFAULT,
          Text (lit ''actual target'') DEFAULT, LineBreak,
          Text (lit ''tool0                         '') DEFAULT,
          Text (lit ''200'' @ degree_sign @ lit ''C  210'' @ degree_sign @ lit ''C'') DEFAULT,
          LineBreak,
          Text (lit ''Time passed:                       '') DEFAULT,
          Text (lit ''1 day, 1:01:01'') DEFAULT, LineBreak,
          Text (lit ''Time left:                         '') DEFAULT,
          Text (lit ''1:01:01'') DEFAULT]"
  by (simp add: msg_curse_items_def long_print_record_def trunc_200 eval_simps)

lemma coerce_field_reading:
  assumes "tool_field tool k = Some v" and "is_reading v"
  shows "coerce_field rt tool k = Inr (reading_int v)"
proof -
  obtain td where "tool = PDict td" and "map_of td k = Some v"
    using assms(1) by (cases tool) (simp_all add: tool_field_def)
  then show ?thesis
    using assms(2) by (cases v) (simp_all add: coerce_field_def bind_Inr is_reading_def reading_int_def)
qed

lemma shown_temperature_reading:
  "tool_field tool k = Some v \<Longrightarrow> shown_temperature tool k = str_opt str_int (reading_int v)"
  by (simp add: shown_temperature_def str_opt_def)

lemma hms_split: "hms n = digits (n div 60 div 60) @ lit '':'' @ two_digits (n div 60 mod 60)
                         @ lit '':'' @ two_digits (n mod 60)"
  by (simp add: hms_def div_mult2_eq [symmetric])

lemma timedelta_str_text:
  assumes "\<bar>n div 86400\<bar> \<le> 999999999"
  shows "timedelta_str n = Inr (duration_text n)"
proof (cases "0 \<le> n \<and> n < 86400")
  case True
  then have "n div 86400 = 0" and "n mod 86400 = n"
    by simp_all
  then show ?thesis
    using True by (simp add: timedelta_str_def duration_text_def hms_split Let_def)
next
  case False
  then have "n div 86400 \<noteq> 0"
    by (auto simp: zdiv_eq_0_iff)
  then show ?thesis
    using False assms by (auto simp: timedelta_str_def duration_text_def hms_split Let_def)
qed

lemma duration_seconds:
  assumes "map_of d k = Some v" and "is_seconds v"
  shows "map_sum id (str_opt id) (duration rt (PDict d) k) = Inr (shown_duration v)"
proof (cases v)
  case (PInt i)
  then have "timedelta_str i = Inr (duration_text i)"
    using assms(2) by (intro timedelta_str_text) (simp add: is_seconds_def reading_int_def)
  then show ?thesis
    using assms(1) PInt
    by (simp add: duration_def bind_Inr shown_duration_def reading_int_def str_opt_def)
next
  case (PFloat q)
  then have "timedelta_str (trunc q) = Inr (duration_text (trunc q))"
    using assms(2) by (intro timedelta_str_text) (simp add: is_seconds_def reading_int_def)
  then show ?thesis
    using assms(1) PFloat
    by (simp add: duration_def bind_Inr shown_duration_def reading_int_def str_opt_def)
qed (use assms in \<open>simp_all add: duration_def bind_Inr shown_duration_def reading_int_def
        str_opt_def is_seconds_def is_reading_def\<close>)

lemma tool_rows_spec:
  assumes "\<And>k tool. (k, tool) \<in> set ts \<Longrightarrow> map_of tools k = Some tool \<and> is_tool tool"
    and "0 \<le> w" and "w \<le> PY_SSIZE_T_MAX"
  shows "tool_rows rt (PDict tools) w (map (\<lambda>kv. PStr (fst kv)) ts)
           = Inr (concat (map (tool_row w) ts))"
  using assms(1)
proof (induction ts)
  case Nil
  then show ?case by simp
next
  case (Cons kv ts)
  obtain k tool where kv: "kv = (k, tool)"
    by (cases kv)
  have found: "map_of tools k = Some tool" and tool: "is_tool tool"
    using Cons.prems [of k tool] kv by simp_all
  obtain a b where a: "tool_field tool (lit ''actual'') = Some a" "is_reading a"
    and b: "tool_field tool (lit ''target'') = Some b" "is_reading b"
    using tool by (auto simp: is_tool_def split: option.splits)
  have rest: "tool_rows rt (PDict tools) w (map (\<lambda>kv. PStr (fst kv)) ts)
           = Inr (concat (map (tool_row w) ts))"
    using Cons.prems by (intro Cons.IH) auto
  have fmt: "py_format rt (PStr k) w = Inr (ljust k (nat w))"
    using assms(2,3) by (simp add: format_str_def)
  have row: "[curse_add_line (ljust k (nat w)) DEFAULT,
              curse_add_line (rjust (str_opt str_int (reading_int a)) 3 @ degree_sign
                              @ lit ''C  '' @ rjust (str_opt str_int (reading_int b)) 3
                              @ degree_sign @ lit ''C'') DEFAULT,
              curse_new_line] = tool_row w (k, tool)"
    by (simp add: tool_row_def shown_temperature_reading [OF a(1)]
          shown_temperature_reading [OF b(1)] curse_add_line_def curse_new_line_def)
  show ?case
    using found rest fmt
    by (simp add: kv bind_Inr coerce_field_reading [OF a] coerce_field_reading [OF b] row)
qed

lemma msg_curse_items_healthy:
  assumes "stats self = PDict d"
    and "map_of d (lit ''state'') = Some state"
    and "map_of d (lit ''error'') = None"
    and "map_of d (lit ''temperature'') = Some (PDict tools)"
    and "distinct (map fst tools)" and "list_all is_tool (map snd tools)"
    and "map_of d (lit ''progress_printTime'') = Some passed" and "is_seconds passed"
    and "map_of d (lit ''progress_printTimeLeft'') = Some left" and "is_seconds left"
    and "\<not> is_disable" and "11 \<le> w" and "w - 5 \<le> PY_SSIZE_T_MAX"
  shows "msg_curse_items rt is_disable self (Some w) =
           Inr ([Text (ljust (lit ''OCTOPRINT '' @ py_str rt state) (nat (w - 11))) TITLE,
                 LineBreak,
                 Text (ljust (lit ''Temperature'') (nat (w - 11))) DEFAULT,
                 Text (lit ''actual target'') DEFAULT,
                 LineBreak]
                @ concat (map (tool_row (w - 10)) tools)
                @ [Text (ljust (lit ''Time passed:'') (nat (w - 5))) DEFAULT,
                   Text (rjust (shown_duration passed) 6) DEFAULT,
                   LineBreak,
                   Text (ljust (lit ''Time left:'') (nat (w - 5))) DEFAULT,
                   Text (rjust (shown_duration left) 6) DEFAULT])"
proof -
  have nonempty: "d \<noteq> []"
    using assms(2) by auto
  have no_error: "lit ''error'' \<notin> fst ` set d"
    using assms(3) by (simp add: map_of_eq_None_iff)
  have fmt: "format_str s (w - 11) = Inr (ljust s (nat (w - 11)))"
    "format_str s (w - 5) = Inr (ljust s (nat (w - 5)))" for s
    using assms(12,13) by (simp_all add: format_str_def)
  have "\<And>k tool. (k, tool) \<in> set tools \<Longrightarrow> map_of tools k = Some tool \<and> is_tool tool"
    using assms(5,6) by (auto simp: list_all_iff)
  then have rows: "tool_rows rt (PDict tools) (w - 10) (map (\<lambda>kv. PStr (fst kv)) tools)
           = Inr (concat (map (tool_row (w - 10)) tools))"
    using assms(12,13) by (intro tool_rows_spec) simp_all
  have passed: "bind (duration rt (PDict d) (lit ''progress_printTime'')) f
                  = (case duration rt (PDict d) (lit ''progress_printTime'') of
                       Inl e \<Rightarrow> Inl e | Inr x \<Rightarrow> f x)" for f :: "pystr option \<Rightarrow> exc + curse_item list"
    by (simp add: bind_def)
  obtain p where p: "duration rt (PDict d) (lit ''progress_printTime'') = Inr p"
      "str_opt id p = shown_duration passed"
    using duration_seconds [OF assms(7,8), of rt]
    by (cases "duration rt (PDict d) (lit ''progress_printTime'')") simp_all
  obtain l where l: "duration rt (PDict d) (lit ''progress_printTimeLeft'') = Inr l"
      "str_opt id l = shown_duration left"
    using duration_seconds [OF assms(9,10), of rt]
    by (cases "duration rt (PDict d) (lit ''progress_printTimeLeft'')") simp_all
  show ?thesis
    using assms(1,2,4,11) nonempty no_error rows p l
    by (simp add: msg_curse_items_def width_minus_def bind_Inr fmt curse_add_line_def
          curse_new_line_def)
qed

lemma next_do_attempt: "next_do (attempt r) k f = (case r of Inl e \<Rightarrow> (Inl e, f) | Inr x \<Rightarrow> k x f)"
  by (simp add: next_do_def attempt_def split: sum.splits)

lemma next_do_self_stats: "next_do self_stats k f = k (stats (this f)) f"
  by (simp add: next_do_def self_stats_def)

lemma next_do_ret_append: "next_do (ret_append x) k f = k () (f\<lparr>ret := ret f @ [x]\<rparr>)"
  by (simp add: next_do_def ret_append_def)

lemma next_do_ret_new: "next_do ret_new k f = k () (f\<lparr>ret := []\<rparr>)"
  by (simp add: next_do_def ret_new_def)

lemma tool_loop_run:
  assumes "subscript (stats (this f)) (PStr (lit ''temperature'')) = Inr temperature"
  shows "this (snd (tool_loop rt w keys f)) = this f
       \<and> (case tool_rows rt temperature w keys of
             Inl e \<Rightarrow> fst (tool_loop rt w keys f) = Inl e
           | Inr rows \<Rightarrow> tool_loop rt w keys f = (Inr (), f\<lparr>ret := ret f @ rows\<rparr>))"
  using assms
proof (induction keys arbitrary: f)
  case Nil
  then show ?case by (simp add: attempt_def)
next
  case (Cons key keys)
  show ?case
  proof (cases "bind (subscript temperature key) (\<lambda>tool.
                 bind (coerce_field rt tool (lit ''actual'')) (\<lambda>actual.
                 bind (coerce_field rt tool (lit ''target'')) (\<lambda>target.
                 bind (py_format rt key w) (\<lambda>tool_msg. Inr (actual, target, tool_msg)))))")
    case (Inl e)
    then show ?thesis
      using Cons.prems
      by (auto simp: next_do_attempt next_do_self_stats bind_def split: sum.splits)
  next
    case (Inr r)
    obtain actual target tool_msg where r: "r = (actual, target, tool_msg)"
      by (cases r)
    let ?temps = "rjust (str_opt str_int actual) 3 @ degree_sign @ lit ''C  ''
                    @ rjust (str_opt str_int target) 3 @ degree_sign @ lit ''C''"
    let ?f = "f\<lparr>ret := ret f @ [curse_add_line tool_msg DEFAULT, curse_add_line ?temps DEFAULT,
                                  curse_new_line]\<rparr>"
    have step: "tool_loop rt w (key # keys) f = tool_loop rt w keys ?f"
      using Inr r Cons.prems
      by (auto simp: next_do_attempt next_do_self_stats next_do_ret_append bind_def Let_def
               split: sum.splits)
    have rows: "tool_rows rt temperature w (key # keys) =
                  bind (tool_rows rt temperature w keys) (\<lambda>rest.
                    Inr ([curse_add_line tool_msg DEFAULT, curse_add_line ?temps DEFAULT,
                          curse_new_line] @ rest))"
      using Inr r by (auto simp: bind_def Let_def split: sum.splits)
    have "subscript (stats (this ?f)) (PStr (lit ''temperature'')) = Inr temperature"
      using Cons.prems by simp
    from Cons.IH [OF this] show ?thesis
      unfolding step rows by (auto simp: bind_def split: sum.splits)
  qed
qed

lemma next_do_tool_loop:
  assumes "isl (subscript (stats (this f)) (PStr (lit ''temperature''))) = False"
  shows "next_do (tool_loop rt w keys) k f =
           (case tool_rows rt (projr (subscript (stats (this f)) (PStr (lit ''temperature'')))) w keys of
              Inl e \<Rightarrow> (Inl e, snd (tool_loop rt w keys f))
            | Inr rows \<Rightarrow> k () (f\<lparr>ret := ret f @ rows\<rparr>))"
proof -
  obtain temperature where
    found: "subscript (stats (this f)) (PStr (lit ''temperature'')) = Inr temperature"
    using assms by (cases "subscript (stats (this f)) (PStr (lit ''temperature''))") simp_all
  show ?thesis
    using tool_loop_run [OF found, of rt w keys]
    by (cases "tool_loop rt w keys f") (auto simp: found next_do_def split: sum.splits)
qed

lemma tool_loop_this:
  assumes "isl (subscript (stats (this f)) (PStr (lit ''temperature''))) = False"
  shows "this (snd (tool_loop rt w keys f)) = this f"
proof -
  obtain temperature where
    found: "subscript (stats (this f)) (PStr (lit ''temperature'')) = Inr temperature"
    using assms by (cases "subscript (stats (this f)) (PStr (lit ''temperature''))") simp_all
  show ?thesis
    using tool_loop_run [OF found, of rt w keys] by simp
qed

lemmas prog_simps =
  next_do_attempt next_do_self_stats next_do_ret_append next_do_ret_new next_do_tool_loop
  tool_loop_this return_ret_def

lemma msg_curse_prog_run:
  "this (snd (msg_curse_prog rt is_disable max_width \<lparr>this = self, ret = r\<rparr>)) = self
   \<and> fst (msg_curse_prog rt is_disable max_width \<lparr>this = self, ret = r\<rparr>)
       = msg_curse_items rt is_disable self max_width"
  by (auto simp: msg_curse_prog_def msg_curse_items_def prog_simps bind_def Let_def
           split: sum.splits)

subsection \<open>The constructor\<close>

text \<open>
  What the constructor makes of a host string: the test is whether the host contains the
  substring \<^verbatim>\<open>http\<close>, and the two endpoint addresses are the resulting host followed
  by a colon, \<^verbatim>\<open>str(port)\<close> and the path.
\<close>

lemma init_normalizes_host:
  assumes "read_api_key env (read_config env base) = Inr s"
    and "host (read_config env base) = PStr h"
  shows "(let h' = (if sublist (lit ''http'') h then h else lit ''http://'' @ h) in
          init rt env base =
            Inr (s\<lparr>host := PStr h',
                   printer_url := h' @ lit '':'' @ py_str rt (port s) @ lit ''/api/printer'',
                   job_url := h' @ lit '':'' @ py_str rt (port s) @ lit ''/api/job'',
                   headers := [(lit ''X-Api-Key'', api_key s)]\<rparr>))"
proof -
  have "host s = PStr h"
    using assms read_api_key_keeps by metis
  then show ?thesis
    using assms(1) by (simp add: init_def build_urls_def bind_Inr Let_def)
qed

text \<open>
  Claim C1, on the code. A host without a scheme is to come out with \<^verbatim>\<open>http://\<close> in
  front. The constructor does so for \<^verbatim>\<open>octopi.local\<close>. It does not for
  \<^verbatim>\<open>httpbin.org\<close>, which has no scheme, not even the separator \<^verbatim>\<open>://\<close>, but
  contains \<^verbatim>\<open>http\<close>: the host is kept, and neither it nor the two endpoint addresses
  begin with \<^verbatim>\<open>http://\<close>.
\<close>

theorem init_host_without_scheme:
  "init plain_runtime (app_config_env (lit ''octopi.local'')) blank_plugin
     = Inr (blank_plugin\<lparr>display_curse := True, host := PStr (lit ''http://octopi.local''),
                          port := PStr (lit ''5000''),
                          printer_url := lit ''http://octopi.local:5000/api/printer'',
                          job_url := lit ''http://octopi.local:5000/api/job'',
                          headers := [(lit ''X-Api-Key'', PNone)]\<rparr>)
   \<and> init plain_runtime (app_config_env (lit ''httpbin.org'')) blank_plugin
     = Inr (blank_plugin\<lparr>display_curse := True, host := PStr (lit ''httpbin.org''),
                          port := PStr (lit ''5000''),
                          printer_url := lit ''httpbin.org:5000/api/printer'',
                          job_url := lit ''httpbin.org:5000/api/job'',
                          headers := [(lit ''X-Api-Key'', PNone)]\<rparr>)
   \<and> \<not> sublist (lit ''://'') (lit ''httpbin.org'')
   \<and> \<not> prefix (lit ''http://'') (lit ''httpbin.org'')
   \<and> \<not> prefix (lit ''http://'') (lit ''httpbin.org:5000/api/printer'')"
  by (simp add: init_def read_config_def read_api_key_def build_urls_def sample_simps
        config_yaml_def path_join_def bind_Inr lit_def Let_def sublist_Cons_right)

text \<open>
  Claim C2, as the code has it. When the application configuration gave no API key, the
  file \<^verbatim>\<open>.octoprint/config.yaml\<close> under the home directory is consulted. If it is not
  a file, the key stays empty and nothing is raised. If it is, it is loaded and the key is
  read as \<^verbatim>\<open>data["api"]["key"]\<close>: the entry becomes the key when the document and
  its \<^verbatim>\<open>api\<close> are mappings that hold it. Otherwise the constructor raises: what the
  loader raises; \<^verbatim>\<open>KeyError\<close> when the document is a mapping without \<^verbatim>\<open>api\<close>, or
  \<^verbatim>\<open>api\<close> is a mapping without \<^verbatim>\<open>key\<close>; \<^verbatim>\<open>TypeError\<close> when the document, or
  its \<^verbatim>\<open>api\<close>, is not a mapping, as with an empty file.
\<close>

theorem api_key_from_local_file:
  assumes "\<not> truthy (api_key (read_config env base))"
  shows "(\<not> isfile env (config_yaml env) \<longrightarrow>
            read_api_key env (read_config env base) = Inr (read_config env base))
       \<and> (isfile env (config_yaml env) \<longrightarrow>
            (\<forall>e. safe_load env (config_yaml env) = Inl e \<longrightarrow> init rt env base = Inl e)
          \<and> (\<forall>data. safe_load env (config_yaml env) = Inr data \<and> \<not> is_mapping data \<longrightarrow>
                 init rt env base = Inl TypeError)
          \<and> (\<forall>d. safe_load env (config_yaml env) = Inr (PDict d)
                   \<and> map_of d (lit ''api'') = None \<longrightarrow>
                 init rt env base = Inl KeyError)
          \<and> (\<forall>d api. safe_load env (config_yaml env) = Inr (PDict d)
                   \<and> map_of d (lit ''api'') = Some api \<and> \<not> is_mapping api \<longrightarrow>
                 init rt env base = Inl TypeError)
          \<and> (\<forall>d a. safe_load env (config_yaml env) = Inr (PDict d)
                   \<and> map_of d (lit ''api'') = Some (PDict a) \<and> map_of a (lit ''key'') = None \<longrightarrow>
                 init rt env base = Inl KeyError)
          \<and> (\<forall>d a key. safe_load env (config_yaml env) = Inr (PDict d)
                   \<and> map_of d (lit ''api'') = Some (PDict a)
                   \<and> map_of a (lit ''key'') = Some key \<longrightarrow>
                 read_api_key env (read_config env base)
                   = Inr ((read_config env base)\<lparr>api_key := key\<rparr>)))"
proof -
  have not_mapping: "subscript v (PStr k) = Inl TypeError" if "\<not> is_mapping v" for v k
    using that by (cases v) (simp_all add: is_mapping_def)
  show ?thesis
    using assms
    by (auto simp: init_def read_api_key_def bind_def Let_def not_mapping)
qed

theorem api_key_from_local_file_witness:
  "config_yaml (local_file_env (Inr keyed_document)) = lit ''/home/pi/.octoprint/config.yaml''
   \<and> read_api_key (app_config_env (lit ''octopi.local''))
        (read_config (app_config_env (lit ''octopi.local'')) blank_plugin)
      = Inr (read_config (app_config_env (lit ''octopi.local'')) blank_plugin)
   \<and> read_api_key (local_file_env (Inr keyed_document))
        (read_config (local_file_env (Inr keyed_document)) blank_plugin)
      = Inr ((read_config (local_file_env (Inr keyed_document)) blank_plugin)
               \<lparr>api_key := PStr (lit ''A1B2'')\<rparr>)
   \<and> init plain_runtime (local_file_env (Inl (Raised (lit ''mapping values are not allowed''))))
        blank_plugin = Inl (Raised (lit ''mapping values are not allowed''))
   \<and> init plain_runtime (local_file_env (Inr PNone)) blank_plugin = Inl TypeError
   \<and> init plain_runtime (local_file_env (Inr (PDict []))) blank_plugin = Inl KeyError
   \<and> init plain_runtime (local_file_env (Inr (PDict [(lit ''api'', PNone)]))) blank_plugin
      = Inl TypeError
   \<and> init plain_runtime (local_file_env (Inr (PDict [(lit ''api'', PDict [])]))) blank_plugin
      = Inl KeyError"
proof -
  let ?absent = "app_config_env (lit ''octopi.local'')"
  have path: "config_yaml (local_file_env loaded) = lit ''/home/pi/.octoprint/config.yaml''"
    for loaded
    by (simp add: config_yaml_def path_join_def sample_simps lit_def)
  have no_key: "\<not> truthy (api_key (read_config ?absent blank_plugin))"
    "\<not> truthy (api_key (read_config (local_file_env loaded) blank_plugin))" for loaded
    by (simp_all add: read_config_def sample_simps lit_def Let_def)
  have absent: "\<not> isfile ?absent (config_yaml ?absent)"
    by (simp add: sample_simps)
  have present: "isfile (local_file_env loaded) (config_yaml (local_file_env loaded))"
    "safe_load (local_file_env loaded) (config_yaml (local_file_env loaded)) = loaded" for loaded
    by (simp_all add: path) (simp_all add: local_file_env_def)
  have entry: "map_of [(lit ''api'', PDict [(lit ''key'', PStr (lit ''A1B2''))])] (lit ''api'')
                 = Some (PDict [(lit ''key'', PStr (lit ''A1B2''))])"
    "map_of [(lit ''key'', PStr (lit ''A1B2''))] (lit ''key'') = Some (PStr (lit ''A1B2''))"
    "map_of [(lit ''api'', PNone)] (lit ''api'') = Some PNone"
    "map_of [(lit ''api'', PDict [])] (lit ''api'') = Some (PDict [])"
    by simp_all
  have empty: "map_of ([] :: (pystr \<times> pyval) list) k = None" for k
    by simp
  have shape: "\<not> is_mapping PNone"
    by (simp add: is_mapping_def)
  have "read_api_key ?absent (read_config ?absent blank_plugin)
          = Inr (read_config ?absent blank_plugin)"
    using api_key_from_local_file [OF no_key(1)] absent by blast
  moreover have "read_api_key (local_file_env (Inr keyed_document))
          (read_config (local_file_env (Inr keyed_document)) blank_plugin)
          = Inr ((read_config (local_file_env (Inr keyed_document)) blank_plugin)
                   \<lparr>api_key := PStr (lit ''A1B2'')\<rparr>)"
    using api_key_from_local_file [OF no_key(2), of "Inr keyed_document"]
      present [of "Inr keyed_document"] entry(1,2)
    by (simp add: keyed_document_def)
  moreover have "init plain_runtime (local_file_env (Inl (Raised (lit ''mapping values are not allowed''))))
        blank_plugin = Inl (Raised (lit ''mapping values are not allowed''))"
    using api_key_from_local_file [OF no_key(2), of "Inl (Raised (lit ''mapping values are not allowed''))"]
      present [of "Inl (Raised (lit ''mapping values are not allowed''))"]
    by simp
  moreover have "init plain_runtime (local_file_env (Inr PNone)) blank_plugin = Inl TypeError"
    using api_key_from_local_file [OF no_key(2), of "Inr PNone"] present [of "Inr PNone"] shape
    by simp
  moreover have "init plain_runtime (local_file_env (Inr (PDict []))) blank_plugin = Inl KeyError"
    using api_key_from_local_file [OF no_key(2), of "Inr (PDict [])"] present [of "Inr (PDict [])"]
      empty
    by simp
  moreover have "init plain_runtime (local_file_env (Inr (PDict [(lit ''api'', PNone)])))
        blank_plugin = Inl TypeError"
    using api_key_from_local_file [OF no_key(2), of "Inr (PDict [(lit ''api'', PNone)])"]
      present [of "Inr (PDict [(lit ''api'', PNone)])"] entry(3) shape
    by simp
  moreover have "init plain_runtime (local_file_env (Inr (PDict [(lit ''api'', PDict [])])))
        blank_plugin = Inl KeyError"
    using api_key_from_local_file [OF no_key(2), of "Inr (PDict [(lit ''api'', PDict [])])"]
      present [of "Inr (PDict [(lit ''api'', PDict [])])"] entry(4) empty
    by simp
  ultimately show ?thesis
    using path by simp
qed

text \<open>
  A local file without the entry \<^verbatim>\<open>api\<close>, and no key in the application configuration:
  the constructor raises.
\<close>

theorem api_key_counterexample:
  "\<not> truthy (api_key (read_config (local_file_env (Inr keyless_document)) blank_plugin))
   \<and> isfile (local_file_env (Inr keyless_document))
        (config_yaml (local_file_env (Inr keyless_document)))
   \<and> init plain_runtime (local_file_env (Inr keyless_document)) blank_plugin = Inl KeyError"
  by (simp add: init_def read_config_def read_api_key_def sample_simps config_yaml_def
        path_join_def bind_def lit_def Let_def)

subsection \<open>\<^verbatim>\<open>update\<close>\<close>

text \<open>
  Claim C3. When both requests return, the printer endpoint answers 200 and both bodies
  decode to documents that hold the expected entries, the record has no \<^verbatim>\<open>error\<close>
  key and holds exactly \<^verbatim>\<open>job.job.estimatedPrintTime\<close>, \<^verbatim>\<open>job.progress.printTime\<close>,
  \<^verbatim>\<open>job.progress.printTimeLeft\<close>, \<^verbatim>\<open>job.state\<close> and the \<^verbatim>\<open>temperature\<close> of the
  printer as it is.
\<close>

theorem update_projects_payload:
  assumes "requests_get (printer_url self) (headers self) = Inr printer"
    and "requests_get (job_url self) (headers self) = Inr job"
    and "status_code printer = 200"
    and "resp_json printer = Inr pj"
    and "resp_json job = Inr jj"
    and "subscript jj (PStr (lit ''job'')) = Inr j"
    and "subscript j (PStr (lit ''estimatedPrintTime'')) = Inr ept"
    and "subscript jj (PStr (lit ''progress'')) = Inr pr"
    and "subscript pr (PStr (lit ''printTime'')) = Inr pt"
    and "subscript pr (PStr (lit ''printTimeLeft'')) = Inr ptl"
    and "subscript jj (PStr (lit ''state'')) = Inr s"
    and "subscript pj (PStr (lit ''temperature'')) = Inr temp"
  shows "(let d = [(lit ''estimatedPrintTime'', ept), (lit ''progress_printTime'', pt),
                   (lit ''progress_printTimeLeft'', ptl), (lit ''state'', s),
                   (lit ''temperature'', temp)]
          in update requests_get self = (Inr (PDict d), self\<lparr>stats := PDict d\<rparr>)
             \<and> py_contains (lit ''error'') (PDict d) = Inr False)"
proof -
  have "project printer job get_init_value =
          Inr [(lit ''estimatedPrintTime'', ept), (lit ''progress_printTime'', pt),
               (lit ''progress_printTimeLeft'', ptl), (lit ''state'', s),
               (lit ''temperature'', temp)]"
    using assms(4-12) by (simp add: project_def get_init_value_def bind_Inr lit_def)
  then show ?thesis
    using assms(1-3) by (simp add: update_def lit_def)
qed

theorem update_projects_payload_witness:
  "update (serve printer_ok job_ok) local_plugin =
     (Inr healthy_record, local_plugin\<lparr>stats := healthy_record\<rparr>)
   \<and> py_contains (lit ''error'') healthy_record = Inr False"
proof -
  have get: "serve printer_ok job_ok (printer_url local_plugin) (headers local_plugin) = Inr printer_ok"
    "serve printer_ok job_ok (job_url local_plugin) (headers local_plugin) = Inr job_ok"
    by (simp_all add: serve_def local_plugin_def lit_def)
  have ok: "status_code printer_ok = 200"
    by (simp add: printer_ok_def)
  have body: "resp_json printer_ok = Inr printer_payload" "resp_json job_ok = Inr job_payload"
    by (simp_all add: printer_ok_def job_ok_def)
  have job: "subscript job_payload (PStr (lit ''job'')) = Inr (PDict [(lit ''estimatedPrintTime'', PInt 9000)])"
    "subscript (PDict [(lit ''estimatedPrintTime'', PInt 9000)]) (PStr (lit ''estimatedPrintTime'')) = Inr (PInt 9000)"
    by (simp_all add: job_payload_def lit_def)
  have progress: "subscript job_payload (PStr (lit ''progress''))
             = Inr (PDict [(lit ''printTime'', PInt 3661), (lit ''printTimeLeft'', PInt 7325)])"
    "subscript (PDict [(lit ''printTime'', PInt 3661), (lit ''printTimeLeft'', PInt 7325)])
       (PStr (lit ''printTime'')) = Inr (PInt 3661)"
    "subscript (PDict [(lit ''printTime'', PInt 3661), (lit ''printTimeLeft'', PInt 7325)])
       (PStr (lit ''printTimeLeft'')) = Inr (PInt 7325)"
    by (simp_all add: job_payload_def lit_def)
  have state: "subscript job_payload (PStr (lit ''state'')) = Inr (PStr (lit ''Printing''))"
    by (simp add: job_payload_def lit_def)
  have temp: "subscript printer_payload (PStr (lit ''temperature''))
             = Inr (PDict [(lit ''tool0'',
                         PDict [(lit ''actual'', PFloat (7050948166601933 / 35184372088832)),
                                (lit ''target'', PInt 210)])])"
    by (simp add: printer_payload_def)
  show ?thesis
    using update_projects_payload
            [where requests_get = "serve printer_ok job_ok" and self = local_plugin,
             OF get ok body job progress state temp]
    by (simp add: Let_def healthy_record_def)
qed

text \<open>
  Claim C4. When the first request raises, or the first returns and the second raises,
  the record is exactly the state \<^verbatim>\<open>Error\<close> and the error text
  \<^verbatim>\<open>Unable to connect:\<close> followed by the message of the exception: the text is not
  empty, and neither the temperature nor any of the three times is in the record.
\<close>

theorem update_transport_fault:
  assumes "requests_get (printer_url self) (headers self) = Inl e
           \<or> (requests_get (printer_url self) (headers self) = Inr printer
              \<and> requests_get (job_url self) (headers self) = Inl e)"
  shows "(let d = [(lit ''state'', PStr (lit ''Error'')),
                   (lit ''error'', PStr (lit ''Unable to connect: '' @ e))]
          in update requests_get self = (Inr (PDict d), self\<lparr>stats := PDict d\<rparr>)
             \<and> lit ''Unable to connect: '' @ e \<noteq> []
             \<and> py_contains (lit ''temperature'') (PDict d) = Inr False
             \<and> py_contains (lit ''estimatedPrintTime'') (PDict d) = Inr False
             \<and> py_contains (lit ''progress_printTime'') (PDict d) = Inr False
             \<and> py_contains (lit ''progress_printTimeLeft'') (PDict d) = Inr False)"
proof -
  have "unable_to_connect e get_init_value self =
          (Inr (PDict [(lit ''state'', PStr (lit ''Error'')),
                       (lit ''error'', PStr (lit ''Unable to connect: '' @ e))]),
           self\<lparr>stats := PDict [(lit ''state'', PStr (lit ''Error'')),
                                 (lit ''error'', PStr (lit ''Unable to connect: '' @ e))]\<rparr>)"
    by (simp add: unable_to_connect_def get_init_value_def lit_def Let_def)
  moreover have "update requests_get self = unable_to_connect e get_init_value self"
    using assms by (auto simp: update_def)
  ultimately show ?thesis
    by (simp add: lit_def)
qed

theorem update_transport_fault_witness:
  "update refuse local_plugin =
     (Inr (PDict [(lit ''state'', PStr (lit ''Error'')),
                  (lit ''error'', PStr (lit ''Unable to connect: Connection refused''))]),
      local_plugin\<lparr>stats := PDict [(lit ''state'', PStr (lit ''Error'')),
                  (lit ''error'', PStr (lit ''Unable to connect: Connection refused''))]\<rparr>)
   \<and> update (refuse_job printer_ok) local_plugin = update refuse local_plugin"
proof -
  have first: "refuse (printer_url local_plugin) (headers local_plugin)
                 = Inl (lit ''Connection refused'')"
    by (simp add: refuse_def)
  have second: "refuse_job printer_ok (printer_url local_plugin) (headers local_plugin) = Inr printer_ok
      \<and> refuse_job printer_ok (job_url local_plugin) (headers local_plugin)
          = Inl (lit ''Connection refused'')"
    by (simp add: refuse_job_def local_plugin_def lit_def)
  have "update refuse local_plugin =
     (Inr (PDict [(lit ''state'', PStr (lit ''Error'')),
                  (lit ''error'', PStr (lit ''Unable to connect: Connection refused''))]),
      local_plugin\<lparr>stats := PDict [(lit ''state'', PStr (lit ''Error'')),
                  (lit ''error'', PStr (lit ''Unable to connect: Connection refused''))]\<rparr>)"
    using update_transport_fault
            [where requests_get = refuse and self = local_plugin, OF disjI1, OF first]
    by (simp add: Let_def) (simp add: lit_def)
  moreover have "update (refuse_job printer_ok) local_plugin =
     (Inr (PDict [(lit ''state'', PStr (lit ''Error'')),
                  (lit ''error'', PStr (lit ''Unable to connect: Connection refused''))]),
      local_plugin\<lparr>stats := PDict [(lit ''state'', PStr (lit ''Error'')),
                  (lit ''error'', PStr (lit ''Unable to connect: Connection refused''))]\<rparr>)"
    using update_transport_fault
            [where requests_get = "refuse_job printer_ok" and self = local_plugin,
             OF disjI2, OF second]
    by (simp add: Let_def) (simp add: lit_def)
  ultimately show ?thesis
    by simp
qed

text \<open>
  Claim C5. When both requests return and the status of the printer endpoint is not 200,
  the record is exactly the state \<^verbatim>\<open>Error\<close> and, as the error, the body text of the
  printer response.
\<close>

theorem update_printer_status_not_200:
  assumes "requests_get (printer_url self) (headers self) = Inr printer"
    and "requests_get (job_url self) (headers self) = Inr job"
    and "status_code printer \<noteq> 200"
  shows "(let d = [(lit ''state'', PStr (lit ''Error'')), (lit ''error'', PStr (resp_text printer))]
          in update requests_get self = (Inr (PDict d), self\<lparr>stats := PDict d\<rparr>))"
  using assms by (simp add: update_def get_init_value_def lit_def Let_def)

theorem update_printer_status_not_200_witness:
  "status_code printer_down = 500
   \<and> update (serve printer_down job_ok) local_plugin =
       (Inr error_record, local_plugin\<lparr>stats := error_record\<rparr>)
   \<and> subscript error_record (PStr (lit ''error'')) = Inr (PStr (lit ''server down''))"
proof -
  have get: "serve printer_down job_ok (printer_url local_plugin) (headers local_plugin) = Inr printer_down"
    "serve printer_down job_ok (job_url local_plugin) (headers local_plugin) = Inr job_ok"
    by (simp_all add: serve_def local_plugin_def lit_def)
  have status: "status_code printer_down \<noteq> 200" "status_code printer_down = 500"
    "resp_text printer_down = lit ''server down''"
    by (simp_all add: printer_down_def)
  show ?thesis
    using update_printer_status_not_200
            [where requests_get = "serve printer_down job_ok" and self = local_plugin,
             OF get status(1)] status(2,3)
    by (simp add: Let_def error_record_def) (simp add: lit_def)
qed

text \<open>
  Claim C9. Only the status of the printer endpoint is looked at: when it is 200, two
  transports whose job responses differ in nothing but the status code give the same
  result, which is the projection of the two decoded bodies, or the exception that
  decoding or projecting raises.
\<close>

theorem update_ignores_job_status:
  assumes "g (printer_url self) (headers self) = Inr printer"
    and "g' (printer_url self) (headers self) = Inr printer"
    and "status_code printer = 200"
    and "g (job_url self) (headers self) = Inr job"
    and "g' (job_url self) (headers self) = Inr (job\<lparr>status_code := c\<rparr>)"
  shows "update g' self = update g self
       \<and> update g' self =
           (case project printer job get_init_value of
              Inl e \<Rightarrow> (Inl e, self)
            | Inr d \<Rightarrow> (Inr (PDict d), self\<lparr>stats := PDict d\<rparr>))"
  using assms by (simp add: update_def project_def)

theorem update_ignores_job_status_witness:
  "update (serve printer_ok (job_ok\<lparr>status_code := 404\<rparr>)) local_plugin
     = (Inr healthy_record, local_plugin\<lparr>stats := healthy_record\<rparr>)"
proof -
  have get: "serve printer_ok job_ok (printer_url local_plugin) (headers local_plugin) = Inr printer_ok"
    "serve printer_ok (job_ok\<lparr>status_code := 404\<rparr>) (printer_url local_plugin) (headers local_plugin)
       = Inr printer_ok"
    by (simp_all add: serve_def local_plugin_def lit_def)
  have ok: "status_code printer_ok = 200"
    by (simp add: printer_ok_def)
  have job: "serve printer_ok job_ok (job_url local_plugin) (headers local_plugin) = Inr job_ok"
    "serve printer_ok (job_ok\<lparr>status_code := 404\<rparr>) (job_url local_plugin) (headers local_plugin)
       = Inr (job_ok\<lparr>status_code := 404\<rparr>)"
    by (simp_all add: serve_def local_plugin_def lit_def)
  have "update (serve printer_ok job_ok) local_plugin
          = (Inr healthy_record, local_plugin\<lparr>stats := healthy_record\<rparr>)"
    by (simp add: update_def project_def get_init_value_def sample_simps bind_Inr lit_def)
  then show ?thesis
    using update_ignores_job_status
            [where g = "serve printer_ok job_ok"
               and g' = "serve printer_ok (job_ok\<lparr>status_code := 404\<rparr>)"
               and self = local_plugin, OF get ok job]
    by simp
qed

subsection \<open>\<^verbatim>\<open>msg_curse\<close>\<close>

text \<open>
  Claim C6. For a record with a state and an error text, when the plugin is not disabled
  and the width is at least 11 (and small enough to be a width at all), the method returns
  exactly the title, \<^verbatim>\<open>OCTOPRINT\<close> and the state padded to the width less 11, a line
  break, and the error text padded to the same width: no temperature or progress row.
\<close>

theorem msg_curse_error_record:
  assumes "stats self = PDict d"
    and "map_of d (lit ''state'') = Some state"
    and "map_of d (lit ''error'') = Some (PStr err)"
    and "\<not> is_disable"
    and "11 \<le> w" and "w - 11 \<le> PY_SSIZE_T_MAX"
  shows "msg_curse rt is_disable self (Some w) =
           (Inr [curse_add_line (ljust (lit ''OCTOPRINT '' @ py_str rt state) (nat (w - 11))) TITLE,
                 curse_new_line,
                 curse_add_line (ljust err (nat (w - 11))) DEFAULT],
            self)"
proof -
  have nonempty: "d \<noteq> []"
    using assms(2) by auto
  have has_error: "lit ''error'' \<in> fst ` set d"
    using assms(3) by (rule map_of_dict_key)
  have fmt: "format_str s (w - 11) = Inr (ljust s (nat (w - 11)))" for s
    using assms(5,6) by (simp add: format_str_def)
  show ?thesis
    using assms(1-4) nonempty has_error
    by (simp add: msg_curse_def msg_curse_items_def width_minus_def bind_Inr fmt)
qed

theorem msg_curse_error_record_witness:
  "msg_curse plain_runtime False (local_plugin\<lparr>stats := error_record\<rparr>) (Some 40) =
     (Inr [Text (lit ''OCTOPRINT Error              '') TITLE,
           LineBreak,
           Text (lit ''server down                  '') DEFAULT],
      local_plugin\<lparr>stats := error_record\<rparr>)"
proof -
  have stored: "stats (local_plugin\<lparr>stats := error_record\<rparr>)
      = PDict [(lit ''state'', PStr (lit ''Error'')), (lit ''error'', PStr (lit ''server down''))]"
    by (simp add: error_record_def)
  have entries:
    "map_of [(lit ''state'', PStr (lit ''Error'')), (lit ''error'', PStr (lit ''server down''))]
       (lit ''state'') = Some (PStr (lit ''Error''))"
    "map_of [(lit ''state'', PStr (lit ''Error'')), (lit ''error'', PStr (lit ''server down''))]
       (lit ''error'') = Some (PStr (lit ''server down''))"
    by (simp_all add: lit_def)
  have width: "(11::int) \<le> 40" "(40::int) - 11 \<le> PY_SSIZE_T_MAX"
    by (simp_all add: PY_SSIZE_T_MAX_def)
  have enabled: "\<not> False"
    by simp
  show ?thesis
    using msg_curse_error_record
            [where self = "local_plugin\<lparr>stats := error_record\<rparr>" and rt = plain_runtime,
             OF stored entries enabled width]
    by (simp add: eval_simps)
qed

text \<open>
  Claim C7, as the code has it. A healthy record (a state, no error, tools that are
  mappings with the optional numbers \<^verbatim>\<open>actual\<close> and \<^verbatim>\<open>target\<close>, and two optional
  times of at most 999999999 days) is shown, at a width of at least 11 and with the plugin
  not disabled, as the title, the header, one row for each tool and the two duration rows.
  A temperature is coerced to an integer when present and reads \<^verbatim>\<open>None\<close> when absent.
  A time reads \<^verbatim>\<open>None\<close> when absent; within a day it reads as hours, minutes and
  seconds; from one day on the count of days stands in front. The record of the claim, at
  width 40, shows 200 and 210 degrees for \<^verbatim>\<open>tool0\<close> and 3661 seconds as 1:01:01; an
  idle printer shows the placeholders.
\<close>

theorem msg_curse_healthy_record:
  "(stats self = PDict d
      \<and> map_of d (lit ''state'') = Some state
      \<and> map_of d (lit ''error'') = None
      \<and> map_of d (lit ''temperature'') = Some (PDict tools)
      \<and> distinct (map fst tools) \<and> list_all is_tool (map snd tools)
      \<and> map_of d (lit ''progress_printTime'') = Some passed \<and> is_seconds passed
      \<and> map_of d (lit ''progress_printTimeLeft'') = Some left \<and> is_seconds left
      \<and> \<not> is_disable \<and> 11 \<le> w \<and> w - 5 \<le> PY_SSIZE_T_MAX
    \<longrightarrow> msg_curse rt is_disable self (Some w) =
          (Inr ([Text (ljust (lit ''OCTOPRINT '' @ py_str rt state) (nat (w - 11))) TITLE,
                    LineBreak,
                    Text (ljust (lit ''Temperature'') (nat (w - 11))) DEFAULT,
                    Text (lit ''actual target'') DEFAULT,
                    LineBreak]
                   @ concat (map (tool_row (w - 10)) tools)
                   @ [Text (ljust (lit ''Time passed:'') (nat (w - 5))) DEFAULT,
                      Text (rjust (shown_duration passed) 6) DEFAULT,
                      LineBreak,
                      Text (ljust (lit ''Time left:'') (nat (w - 5))) DEFAULT,
                      Text (rjust (shown_duration left) 6) DEFAULT]),
           self))
   \<and> msg_curse rt False (other\<lparr>stats := healthy_record\<rparr>) (Some 40) =
       (Inr [Text (lit ''OCTOPRINT Printing           '') TITLE, LineBreak,
           Text (lit ''Temperature                  '') DEFAULT,
           Text (lit ''actual target'') DEFAULT, LineBreak,
           Text (lit ''tool0                         '') DEFAULT,
           Text (lit ''200'' @ degree_sign @ lit ''C  210'' @ degree_sign @ lit ''C'') DEFAULT,
           LineBreak,
           Text (lit ''Time passed:                       '') DEFAULT,
           Text (lit ''1:01:01'') DEFAULT, LineBreak,
           Text (lit ''Time left:                         '') DEFAULT,
           Text (lit ''2:02:05'') DEFAULT],
        other\<lparr>stats := healthy_record\<rparr>)
   \<and> msg_curse rt False (other\<lparr>stats := idle_record\<rparr>) (Some 40) =
       (Inr [Text (lit ''OCTOPRINT Operational        '') TITLE, LineBreak,
           Text (lit ''Temperature                  '') DEFAULT,
           Text (lit ''actual target'') DEFAULT, LineBreak,
           Text (lit ''bed                           '') DEFAULT,
           Text (lit '' 21'' @ degree_sign @ lit ''C  None'' @ degree_sign @ lit ''C'') DEFAULT,
           LineBreak,
           Text (lit ''Time passed:                       '') DEFAULT,
           Text (lit ''  None'') DEFAULT, LineBreak,
           Text (lit ''Time left:                         '') DEFAULT,
           Text (lit ''  None'') DEFAULT],
        other\<lparr>stats := idle_record\<rparr>)
   \<and> (\<forall>n. 0 \<le> n \<and> n < 86400 \<longrightarrow> shown_duration (PInt n) = hms (nat n))
   \<and> shown_duration PNone = lit ''None''
   \<and> hms 3661 = lit ''1:01:01''"
proof -
  have general: "msg_curse rt is_disable self (Some w) =
          (Inr ([Text (ljust (lit ''OCTOPRINT '' @ py_str rt state) (nat (w - 11))) TITLE,
                    LineBreak,
                    Text (ljust (lit ''Temperature'') (nat (w - 11))) DEFAULT,
                    Text (lit ''actual target'') DEFAULT,
                    LineBreak]
                   @ concat (map (tool_row (w - 10)) tools)
                   @ [Text (ljust (lit ''Time passed:'') (nat (w - 5))) DEFAULT,
                      Text (rjust (shown_duration passed) 6) DEFAULT,
                      LineBreak,
                      Text (ljust (lit ''Time left:'') (nat (w - 5))) DEFAULT,
                      Text (rjust (shown_duration left) 6) DEFAULT]),
           self)"
    if "stats self = PDict d"
      and "map_of d (lit ''state'') = Some state"
      and "map_of d (lit ''error'') = None"
      and "map_of d (lit ''temperature'') = Some (PDict tools)"
      and "distinct (map fst tools)" and "list_all is_tool (map snd tools)"
      and "map_of d (lit ''progress_printTime'') = Some passed" and "is_seconds passed"
      and "map_of d (lit ''progress_printTimeLeft'') = Some left" and "is_seconds left"
      and "\<not> is_disable" and "11 \<le> w" and "w - 5 \<le> PY_SSIZE_T_MAX"
    using msg_curse_items_healthy [OF that, of rt] by (simp add: msg_curse_def)
  have healthy: "msg_curse_items rt False (other\<lparr>stats := healthy_record\<rparr>) (Some 40) =
       Inr [Text (lit ''OCTOPRINT Printing           '') TITLE, LineBreak,
           Text (lit ''Temperature                  '') DEFAULT,
           Text (lit ''actual target'') DEFAULT, LineBreak,
           Text (lit ''tool0                         '') DEFAULT,
           Text (lit ''200'' @ degree_sign @ lit ''C  210'' @ degree_sign @ lit ''C'') DEFAULT,
           LineBreak,
           Text (lit ''Time passed:                       '') DEFAULT,
           Text (lit ''1:01:01'') DEFAULT, LineBreak,
           Text (lit ''Time left:                         '') DEFAULT,
           Text (lit ''2:02:05'') DEFAULT]"
    by (rule healthy_items) simp
  have idle: "msg_curse_items rt False (other\<lparr>stats := idle_record\<rparr>) (Some 40) =
       Inr [Text (lit ''OCTOPRINT Operational        '') TITLE, LineBreak,
           Text (lit ''Temperature                  '') DEFAULT,
           Text (lit ''actual target'') DEFAULT, LineBreak,
           Text (lit ''bed                           '') DEFAULT,
           Text (lit '' 21'' @ degree_sign @ lit ''C  None'' @ degree_sign @ lit ''C'') DEFAULT,
           LineBreak,
           Text (lit ''Time passed:                       '') DEFAULT,
           Text (lit ''  None'') DEFAULT, LineBreak,
           Text (lit ''Time left:                         '') DEFAULT,
           Text (lit ''  None'') DEFAULT]"
    by (rule idle_items) simp
  have clock: "shown_duration (PInt n) = hms (nat n)" if "0 \<le> n \<and> n < 86400" for n
    using that by (simp add: shown_duration_def reading_int_def duration_text_def)
  have placeholder: "shown_duration PNone = lit ''None''"
    by (simp add: shown_duration_def reading_int_def)
  have example: "hms 3661 = lit ''1:01:01''"
    by (simp add: hms_def two_digits_def digits.simps lit_def)
  show ?thesis
    using general healthy idle clock placeholder example
    by (simp add: msg_curse_def)
qed

text \<open>
  A paused print with two tools, one target absent, after two days and five seconds, with
  no time left reported, at width 50.
\<close>

theorem msg_curse_healthy_record_witness:
  "msg_curse plain_runtime False (local_plugin\<lparr>stats := paused_record\<rparr>) (Some 50) =
     (Inr [Text (lit ''OCTOPRINT Paused                       '') TITLE, LineBreak,
          Text (lit ''Temperature                            '') DEFAULT,
          Text (lit ''actual target'') DEFAULT, LineBreak,
          Text (lit ''tool0                                   '') DEFAULT,
          Text (lit ''215'' @ degree_sign @ lit ''C  215'' @ degree_sign @ lit ''C'') DEFAULT,
          LineBreak,
          Text (lit ''bed                                     '') DEFAULT,
          Text (lit '' 60'' @ degree_sign @ lit ''C  None'' @ degree_sign @ lit ''C'') DEFAULT,
          LineBreak,
          Text (lit ''Time passed:                                 '') DEFAULT,
          Text (lit ''2 days, 0:00:05'') DEFAULT, LineBreak,
          Text (lit ''Time left:                                   '') DEFAULT,
          Text (lit ''  None'') DEFAULT],
      local_plugin\<lparr>stats := paused_record\<rparr>)"
proof -
  let ?d = "[(lit ''estimatedPrintTime'', PInt 200000),
            (lit ''progress_printTime'', PInt 172805),
            (lit ''progress_printTimeLeft'', PNone),
            (lit ''state'', PStr (lit ''Paused'')),
            (lit ''temperature'', PDict paused_tools)]"
  have stored: "stats (local_plugin\<lparr>stats := paused_record\<rparr>) = PDict ?d"
    by (simp add: paused_record_def)
  have entries: "map_of ?d (lit ''state'') = Some (PStr (lit ''Paused''))"
    "map_of ?d (lit ''error'') = None"
    "map_of ?d (lit ''temperature'') = Some (PDict paused_tools)"
    "map_of ?d (lit ''progress_printTime'') = Some (PInt 172805)"
    "map_of ?d (lit ''progress_printTimeLeft'') = Some PNone"
    by (simp_all add: lit_def)
  have tools: "distinct (map fst paused_tools)" "list_all is_tool (map snd paused_tools)"
    by (simp_all add: paused_tools_def is_tool_def tool_field_def is_reading_def lit_def)
  have times: "is_seconds (PInt 172805)" "is_seconds PNone"
    by (simp_all add: is_seconds_def is_reading_def reading_int_def)
  have width: "\<not> False" "(11::int) \<le> 50" "(50::int) - 5 \<le> PY_SSIZE_T_MAX"
    by (simp_all add: PY_SSIZE_T_MAX_def)
  have rows: "concat (map (tool_row (50 - 10)) paused_tools) =
      [Text (lit ''tool0                                   '') DEFAULT,
       Text (lit ''215'' @ degree_sign @ lit ''C  215'' @ degree_sign @ lit ''C'') DEFAULT,
       LineBreak,
       Text (lit ''bed                                     '') DEFAULT,
       Text (lit '' 60'' @ degree_sign @ lit ''C  None'' @ degree_sign @ lit ''C'') DEFAULT,
       LineBreak]"
    by (simp add: paused_tools_def tool_row_def shown_temperature_def tool_field_def
          reading_int_def trunc_fraction ljust_def rjust_def replicate_numeral str_int_def
          digits.simps lit_def)
  have passed: "shown_duration (PInt 172805) = lit ''2 days, 0:00:05''"
    by (simp add: shown_duration_def reading_int_def duration_text_def hms_def two_digits_def
          str_int_def digits.simps lit_def)
  have left: "shown_duration PNone = lit ''None''"
    by (simp add: shown_duration_def reading_int_def)
  have "msg_curse plain_runtime False (local_plugin\<lparr>stats := paused_record\<rparr>) (Some 50) =
          (Inr ([Text (ljust (lit ''OCTOPRINT '' @ py_str plain_runtime (PStr (lit ''Paused'')))
                         (nat (50 - 11))) TITLE,
                 LineBreak,
                 Text (ljust (lit ''Temperature'') (nat (50 - 11))) DEFAULT,
                 Text (lit ''actual target'') DEFAULT,
                 LineBreak]
                @ concat (map (tool_row (50 - 10)) paused_tools)
                @ [Text (ljust (lit ''Time passed:'') (nat (50 - 5))) DEFAULT,
                   Text (rjust (shown_duration (PInt 172805)) 6) DEFAULT,
                   LineBreak,
                   Text (ljust (lit ''Time left:'') (nat (50 - 5))) DEFAULT,
                   Text (rjust (shown_duration PNone) 6) DEFAULT]),
           local_plugin\<lparr>stats := paused_record\<rparr>)"
    using msg_curse_healthy_record
            [where self = "local_plugin\<lparr>stats := paused_record\<rparr>" and d = ?d
               and rt = plain_runtime and is_disable = False and w = 50
               and tools = paused_tools and state = "PStr (lit ''Paused'')"
               and passed = "PInt 172805" and left = PNone]
          stored entries tools times width
    by blast
  then show ?thesis
    unfolding rows passed left
    by (simp add: ljust_def rjust_def replicate_numeral lit_def)
qed

text \<open>
  The record of the claim after 90061 seconds, at width 40: the duration row reads
  \<^verbatim>\<open>1 day, 1:01:01\<close>, which is not the hours, minutes and seconds of 90061 seconds.
\<close>

theorem msg_curse_long_print_counterexample:
  "fst (msg_curse plain_runtime False (local_plugin\<lparr>stats := long_print_record\<rparr>) (Some 40)) =
     Inr [Text (lit ''OCTOPRINT Printing           '') TITLE, LineBreak,
           Text (lit ''Temperature                  '') DEFAULT,
           Text (lit ''actual target'') DEFAULT, LineBreak,
           Text (lit ''tool0                         '') DEFAULT,
           Text (lit ''200'' @ degree_sign @ lit ''C  210'' @ degree_sign @ lit ''C'') DEFAULT,
           LineBreak,
           Text (lit ''Time passed:                       '') DEFAULT,
           Text (lit ''1 day, 1:01:01'') DEFAULT, LineBreak,
           Text (lit ''Time left:                         '') DEFAULT,
           Text (lit ''1:01:01'') DEFAULT]
   \<and> hms 90061 = lit ''25:01:01''
   \<and> lit ''1 day, 1:01:01'' \<noteq> hms 90061"
proof -
  have "msg_curse_items plain_runtime False (local_plugin\<lparr>stats := long_print_record\<rparr>) (Some 40) =
     Inr [Text (lit ''OCTOPRINT Printing           '') TITLE, LineBreak,
           Text (lit ''Temperature                  '') DEFAULT,
           Text (lit ''actual target'') DEFAULT, LineBreak,
           Text (lit ''tool0                         '') DEFAULT,
           Text (lit ''200'' @ degree_sign @ lit ''C  210'' @ degree_sign @ lit ''C'') DEFAULT,
           LineBreak,
           Text (lit ''Time passed:                       '') DEFAULT,
           Text (lit ''1 day, 1:01:01'') DEFAULT, LineBreak,
           Text (lit ''Time left:                         '') DEFAULT,
           Text (lit ''1:01:01'') DEFAULT]"
    by (rule long_print_items) simp
  moreover have "hms 90061 = lit ''25:01:01''"
    by (simp add: hms_def two_digits_def digits.simps lit_def)
  ultimately show ?thesis
    by (simp add: msg_curse_def) (simp add: lit_def)
qed

text \<open>
  Claim C8. Run statement by statement on a frame that holds the object, the method leaves
  the object as it was, whether it returns or raises; a second call on the object that the
  first call leaves, with the same width, returns or raises what the first did; and what a
  call returns is the list of \<open>msg_curse\<close>.
\<close>

theorem msg_curse_call_pure:
  "snd (msg_curse_call rt is_disable self max_width) = self
   \<and> fst (msg_curse_call rt is_disable (snd (msg_curse_call rt is_disable self max_width)) max_width)
       = fst (msg_curse_call rt is_disable self max_width)
   \<and> msg_curse_call rt is_disable self max_width = msg_curse rt is_disable self max_width"
proof -
  have run: "msg_curse_call rt is_disable p max_width = (msg_curse_items rt is_disable p max_width, p)"
    for p
    using msg_curse_prog_run [of rt is_disable max_width p "[]"]
    by (cases "msg_curse_prog rt is_disable max_width \<lparr>this = p, ret = []\<rparr>")
       (simp add: msg_curse_call_def)
  show ?thesis
    by (simp add: run msg_curse_def)
qed

theorem msg_curse_call_pure_witness:
  "snd (msg_curse_call plain_runtime False (local_plugin\<lparr>stats := error_record\<rparr>) (Some 40))
     = local_plugin\<lparr>stats := error_record\<rparr>
   \<and> fst (msg_curse_call plain_runtime False (local_plugin\<lparr>stats := error_record\<rparr>) (Some 40))
     = Inr [Text (lit ''OCTOPRINT Error              '') TITLE,
           LineBreak,
           Text (lit ''server down                  '') DEFAULT]
   \<and> fst (msg_curse_call plain_runtime False
            (snd (msg_curse_call plain_runtime False (local_plugin\<lparr>stats := error_record\<rparr>)
                    (Some 40)))
            (Some 40))
     = Inr [Text (lit ''OCTOPRINT Error              '') TITLE,
           LineBreak,
           Text (lit ''server down                  '') DEFAULT]
   \<and> snd (msg_curse_call plain_runtime False (local_plugin\<lparr>stats := healthy_record\<rparr>) (Some 10))
     = local_plugin\<lparr>stats := healthy_record\<rparr>
   \<and> fst (msg_curse_call plain_runtime False
            (snd (msg_curse_call plain_runtime False (local_plugin\<lparr>stats := healthy_record\<rparr>)
                    (Some 10)))
            (Some 10))
     = Inl ValueError"
proof -
  let ?failed = "local_plugin\<lparr>stats := error_record\<rparr>"
  let ?narrow = "local_plugin\<lparr>stats := healthy_record\<rparr>"
  have shown: "msg_curse_items plain_runtime False ?failed (Some 40) = Inr [Text (lit ''OCTOPRINT Error              '') TITLE,
           LineBreak,
           Text (lit ''server down                  '') DEFAULT]"
    by (simp add: msg_curse_items_def error_record_def eval_simps)
  have raised: "msg_curse_items plain_runtime False ?narrow (Some 10) = Inl ValueError"
    by (simp add: msg_curse_items_def healthy_record_def eval_simps)
  show ?thesis
    using msg_curse_call_pure [of plain_runtime False ?failed "Some 40"]
          msg_curse_call_pure [of plain_runtime False ?narrow "Some 10"]
          shown raised
    by (simp add: msg_curse_def)
qed

text \<open>
  Claim C10. On a record that is not empty, with the plugin not disabled, every width
  below 11 makes the method raise: the exception of reading the state when that fails,
  and otherwise \<^verbatim>\<open>ValueError\<close> from the title's format specification, whose width
  is negative.
\<close>

theorem msg_curse_narrow_raises:
  assumes "truthy (stats self)" and "\<not> is_disable" and "w < 11"
  shows "msg_curse rt is_disable self (Some w) =
           (Inl (case subscript (stats self) (PStr (lit ''state'')) of
                   Inl e \<Rightarrow> e | Inr state \<Rightarrow> ValueError),
            self)"
proof -
  have fmt: "format_str s (w - 11) = Inl ValueError" for s
    using assms(3) by (simp add: format_str_def)
  show ?thesis
    using assms(1,2)
    by (simp add: msg_curse_def msg_curse_items_def width_minus_def bind_def fmt
             split: sum.splits)
qed

theorem msg_curse_narrow_raises_witness:
  "msg_curse plain_runtime False (local_plugin\<lparr>stats := healthy_record\<rparr>) (Some 10)
     = (Inl ValueError, local_plugin\<lparr>stats := healthy_record\<rparr>)"
proof -
  have nonempty: "truthy (stats (local_plugin\<lparr>stats := healthy_record\<rparr>))"
    by (simp add: healthy_record_def)
  have enabled: "\<not> False"
    by simp
  have narrow: "(10::int) < 11"
    by simp
  have "subscript (stats (local_plugin\<lparr>stats := healthy_record\<rparr>)) (PStr (lit ''state''))
          = Inr (PStr (lit ''Printing''))"
    by (simp add: healthy_record_def lit_def)
  then show ?thesis
    using msg_curse_narrow_raises
            [where self = "local_plugin\<lparr>stats := healthy_record\<rparr>" and rt = plain_runtime,
             OF nonempty enabled narrow]
    by simp
qed


end
